theory Spec2Isabelle
  imports Main
begin

section \<open>Jina Reader MCP server: the formatter, the cache and the tool handlers\<close>

text \<open>
  A shallow embedding of \<^verbatim>\<open>src/index.ts\<close>. JavaScript strings are modelled as
  \<^typ>\<open>string\<close>, one \<^typ>\<open>char\<close> per code unit (so the model covers code units below
  256), and JavaScript numbers that are integers as \<^typ>\<open>int\<close>; fractions, \<^verbatim>\<open>NaN\<close>
  and the infinities are outside the model. An optional argument or an optional property
  is an \<^typ>\<open>'a option\<close>, \<^term>\<open>None\<close> standing for \<^verbatim>\<open>undefined\<close>. The diagnostics
  written with \<^verbatim>\<open>console.error\<close> are left out.
\<close>

subsection \<open>Numbers inside template literals\<close>

text \<open>
  \<^verbatim>\<open>`${n}`\<close> of an integer-valued number is its decimal numeral, with a leading minus
  sign below zero (for magnitudes under \<open>10^21\<close>, where JavaScript does not yet switch to
  exponent notation).
\<close>

definition digitChar :: "nat \<Rightarrow> char" where
  "digitChar d = ''0123456789'' ! (d mod 10)"

function natStr :: "nat \<Rightarrow> string" where
  "natStr n = (if n < 10 then [digitChar n] else natStr (n div 10) @ [digitChar (n mod 10)])"
  by pat_completeness auto
termination
  by (relation "measure id") auto

declare natStr.simps [simp del]

definition numStr :: "int \<Rightarrow> string" where
  "numStr n = (if n < 0 then ''-'' @ natStr (nat (- n)) else natStr (nat n))"

text \<open>
  The model's numbers agree with JavaScript's on the safe integers
  (\<^verbatim>\<open>Number.isSafeInteger\<close>): there the sums the code forms are exact and a number is
  rendered as its decimal numeral. Beyond them a sum of doubles is rounded, and from
  \<open>10^21\<close> on the rendering has an exponent. The theorems that speak of a sum or of a
  rendered number therefore assume that the numbers concerned are safe integers.
\<close>

definition MAX_SAFE_INTEGER :: int where
  "MAX_SAFE_INTEGER = 2 ^ 53 - 1"

definition isSafeInteger :: "int \<Rightarrow> bool" where
  "isSafeInteger n = (- MAX_SAFE_INTEGER \<le> n \<and> n \<le> MAX_SAFE_INTEGER)"

subsection \<open>The text envelope a tool handler returns\<close>

record TextContent =
  type :: string
  "text" :: string

record Envelope =
  content :: "TextContent list"

definition textEnvelope :: "string \<Rightarrow> Envelope" where
  "textEnvelope t = \<lparr>content = [\<lparr>type = ''text'', text = t\<rparr>]\<rparr>"

subsection \<open>The upstream payload\<close>

text \<open>
  \<^verbatim>\<open>formatJinaResponse\<close> takes \<^verbatim>\<open>result: any\<close>, the parsed JSON body of the upstream
  reply. The model covers bodies of the shape the function reads: an optional
  \<^verbatim>\<open>data\<close> object with optional string properties \<^verbatim>\<open>title\<close>, \<^verbatim>\<open>description\<close>,
  \<^verbatim>\<open>content\<close> and \<^verbatim>\<open>warning\<close>, an optional \<^verbatim>\<open>links\<close> object from link text to URL
  (kept as the list of its entries, in the order \<^verbatim>\<open>Object.entries\<close> enumerates them)
  and an optional \<^verbatim>\<open>usage\<close> object with an optional number \<^verbatim>\<open>tokens\<close>.
\<close>

record Usage =
  tokens :: "int option"

record Data =
  title :: "string option"
  description :: "string option"
  content :: "string option"
  links :: "(string \<times> string) list option"
  warning :: "string option"
  usage :: "Usage option"

record Result =
  data :: "Data option"

text \<open>
  What \<^verbatim>\<open>response.json()\<close> yields, as far as \<^verbatim>\<open>formatJinaResponse\<close> can tell: a
  body of the shape above, or a body on which the formatter throws, kept with the
  message of the error thrown. The JSON value \<^verbatim>\<open>null\<close> is such a body
  (\<^verbatim>\<open>result.data\<close> raises a \<^verbatim>\<open>TypeError\<close>), and so is one whose \<^verbatim>\<open>description\<close> is
  truthy but has no \<^verbatim>\<open>trim\<close> method.
\<close>

datatype Body = Unformattable string | Shaped Result

datatype Error = Error (message: string)

subsection \<open>Truthiness and \<^verbatim>\<open>trim\<close>\<close>

fun truthyStr :: "string option \<Rightarrow> bool" where
  "truthyStr None = False"
| "truthyStr (Some s) = (s \<noteq> [])"

fun truthyNum :: "int option \<Rightarrow> bool" where
  "truthyNum None = False"
| "truthyNum (Some n) = (n \<noteq> 0)"

definition isWhiteSpace :: "char \<Rightarrow> bool" where
  "isWhiteSpace c = (c \<in> set [CHR 0x09, CHR 0x0A, CHR 0x0B, CHR 0x0C, CHR 0x0D, CHR 0x20, CHR 0xA0])"

definition trim :: "string \<Rightarrow> string" where
  "trim s = rev (dropWhile isWhiteSpace (rev (dropWhile isWhiteSpace s)))"

subsection \<open>\<^verbatim>\<open>formatJinaResponse\<close>\<close>

text \<open>
  Lines 226 to 260 build \<^verbatim>\<open>output\<close>, the assembled text; lines 262 to 288 paginate
  it. The model keeps the two halves apart as \<open>assemble\<close> and \<open>paginate\<close>;
  \<open>formatJinaResponse\<close> is their composition.
\<close>

definition linkLine :: "string \<times> string \<Rightarrow> string" where
  "linkLine e = ''- ['' @ fst e @ '']('' @ snd e @ '')'' @ [CHR 0x0A]"

definition noContent :: string where
  "noContent = ''No content extracted or unexpected response format.''"

definition assembleData :: "Data \<Rightarrow> string" where
  "assembleData d =
    (let output = [];
         output = (if truthyStr (title d)
                   then output @ ''# '' @ the (title d) @ [CHR 0x0A, CHR 0x0A] else output);
         output = (if truthyStr (description d) \<and> trim (the (description d)) \<noteq> []
                   then output @ the (description d) @ [CHR 0x0A, CHR 0x0A] else output);
         output = (if truthyStr (content d)
                   then output @ the (content d) @ [CHR 0x0A, CHR 0x0A] else output);
         output = (if links d \<noteq> None \<and> length (the (links d)) > 0
                   then foldl (\<lambda>out e. out @ linkLine e)
                          (output @ ''## Links'' @ [CHR 0x0A, CHR 0x0A]) (the (links d))
                        @ [CHR 0x0A]
                   else output);
         output = (if truthyStr (warning d)
                   then output @ ''> Warning: '' @ the (warning d) @ [CHR 0x0A, CHR 0x0A] else output);
         output = (if usage d \<noteq> None \<and> truthyNum (tokens (the (usage d)))
                   then output @ ''*Used '' @ numStr (the (tokens (the (usage d)))) @ '' tokens*''
                          @ [CHR 0x0A]
                   else output)
     in output)"

definition assemble :: "Result \<Rightarrow> string" where
  "assemble result = (case data result of Some d \<Rightarrow> assembleData d | None \<Rightarrow> noContent)"

definition defaultMaxLength :: int where
  "defaultMaxLength = 20000"

text \<open>\<^verbatim>\<open>max_length || defaultMaxLength\<close>: the left operand unless it is falsy.\<close>

definition effectiveMaxLength :: "int option \<Rightarrow> int" where
  "effectiveMaxLength max_length =
    (case max_length of None \<Rightarrow> defaultMaxLength
     | Some n \<Rightarrow> if n = 0 then defaultMaxLength else n)"

text \<open>\<^verbatim>\<open>s.substring(0, n)\<close>: a negative end counts as 0, an end past the length as the length.\<close>

definition substring0 :: "string \<Rightarrow> int \<Rightarrow> string" where
  "substring0 s n = take (nat n) s"

definition clippedTrailer :: "int \<Rightarrow> int \<Rightarrow> int \<Rightarrow> string" where
  "clippedTrailer startPosition endPosition totalLength =
    [CHR 0x0A, CHR 0x0A] @ ''---'' @ [CHR 0x0A] @
    ''[PAGINATION INFO]'' @ [CHR 0x0A] @
    ''- Content clipped: Currently showing characters '' @ numStr startPosition @ ''-'' @
      numStr endPosition @ '' of approximately '' @ numStr totalLength @ '' total'' @ [CHR 0x0A] @
    ''- To view the next section, use start_index='' @ numStr endPosition @
      '' with the same max_length'' @ [CHR 0x0A] @
    ''- Complete content can be accessed by making multiple paginated requests'' @ [CHR 0x0A]"

definition endTrailer :: "int \<Rightarrow> int \<Rightarrow> string" where
  "endTrailer startPosition shownEnd =
    [CHR 0x0A, CHR 0x0A] @ ''---'' @ [CHR 0x0A] @
    ''[PAGINATION INFO]'' @ [CHR 0x0A] @
    ''- Showing characters '' @ numStr startPosition @ ''-'' @ numStr shownEnd @
      '' of the document'' @ [CHR 0x0A] @
    ''- This appears to be the end of the content'' @ [CHR 0x0A]"

definition paginate :: "string \<Rightarrow> int option \<Rightarrow> int \<Rightarrow> string" where
  "paginate output max_length start_index =
    (let effectiveMaxLength = effectiveMaxLength max_length;
         startPosition = start_index
     in if int (length output) > effectiveMaxLength
        then (let totalLength = int (length output);
                  endPosition = startPosition + effectiveMaxLength
              in substring0 output effectiveMaxLength
                 @ clippedTrailer startPosition endPosition totalLength)
        else if startPosition > 0
             then output @ endTrailer startPosition (startPosition + int (length output))
             else output)"

definition formatJinaResponse :: "Result \<Rightarrow> int option \<Rightarrow> int \<Rightarrow> string" where
  "formatJinaResponse result max_length start_index =
    paginate (assemble result) max_length start_index"

text \<open>
  \<^verbatim>\<open>formatJinaResponse\<close> on whatever the client returned: it throws on a body it
  cannot read and returns the formatted text on a body of the documented shape.
\<close>

fun formatBody :: "Body \<Rightarrow> int option \<Rightarrow> int \<Rightarrow> Error + string" where
  "formatBody (Unformattable msg) max_length start_index = Inl (Error msg)"
| "formatBody (Shaped result) max_length start_index =
     Inr (formatJinaResponse result max_length start_index)"

subsection \<open>\<^verbatim>\<open>JSON.stringify\<close> on the values the server serialises\<close>

text \<open>
  A string is quoted with the two-character escapes for backspace, tab, line feed, form
  feed, carriage return, the double quote and the backslash, and \<^verbatim>\<open>\u00hh\<close> for the
  other code units below \<open>0x20\<close>; everything else is copied. A property whose value
  is \<^verbatim>\<open>undefined\<close> is left out of the object.
\<close>

definition hexDigit :: "nat \<Rightarrow> char" where
  "hexDigit d = ''0123456789abcdef'' ! (d mod 16)"

text \<open>The single-character escape sequences of JSON: code unit and the letter after the backslash.\<close>

definition jsonEscapes :: "(char \<times> char) list" where
  "jsonEscapes =
    [(CHR 0x08, CHR ''b''), (CHR 0x09, CHR ''t''), (CHR 0x0A, CHR ''n''), (CHR 0x0C, CHR ''f''),
     (CHR 0x0D, CHR ''r''), (CHR 0x22, CHR 0x22), (CHR 0x5C, CHR 0x5C)]"

definition escapeChar :: "char \<Rightarrow> string" where
  "escapeChar c =
    (case map_of jsonEscapes c of
       Some e \<Rightarrow> [CHR 0x5C, e]
     | None \<Rightarrow>
         if (of_char c :: nat) < 32
         then [CHR 0x5C, CHR ''u'', CHR ''0'', CHR ''0'',
               hexDigit (of_char c div 16), hexDigit (of_char c mod 16)]
         else [c])"

definition quoteJSONString :: "string \<Rightarrow> string" where
  "quoteJSONString s = [CHR 0x22] @ concat (map escapeChar s) @ [CHR 0x22]"

definition optionalNumber :: "string \<Rightarrow> int option \<Rightarrow> string" where
  "optionalNumber name v =
    (case v of None \<Rightarrow> []
     | Some n \<Rightarrow> '','' @ quoteJSONString name @ '':'' @ numStr n)"

subsection \<open>Requests\<close>

datatype JinaEngineType = none | direct | browser | cf_browser_rendering

fun engineName :: "JinaEngineType \<Rightarrow> string" where
  "engineName none = ''none''"
| "engineName direct = ''direct''"
| "engineName browser = ''browser''"
| "engineName cf_browser_rendering = ''cf-browser-rendering''"

text \<open>The \<^verbatim>\<open>params\<close> objects the three handlers build: \<^verbatim>\<open>{ url }\<close>, \<^verbatim>\<open>{ html }\<close>, \<^verbatim>\<open>{ pdf }\<close>.\<close>

datatype Params = Url string | Html string | Pdf string

fun paramsMember :: "Params \<Rightarrow> string" where
  "paramsMember (Url u) = quoteJSONString ''url'' @ '':'' @ quoteJSONString u"
| "paramsMember (Html h) = quoteJSONString ''html'' @ '':'' @ quoteJSONString h"
| "paramsMember (Pdf p) = quoteJSONString ''pdf'' @ '':'' @ quoteJSONString p"

text \<open>\<^verbatim>\<open>JSON.stringify({ params, engine, max_length, start_index })\<close>\<close>

definition cacheKey :: "Params \<Rightarrow> JinaEngineType \<Rightarrow> int option \<Rightarrow> int option \<Rightarrow> string" where
  "cacheKey params engine max_length start_index =
    ''{'' @ quoteJSONString ''params'' @ '':'' @ ''{'' @ paramsMember params @ ''}'' @
    '','' @ quoteJSONString ''engine'' @ '':'' @ quoteJSONString (engineName engine) @
    optionalNumber ''max_length'' max_length @
    optionalNumber ''start_index'' start_index @ ''}''"

text \<open>\<^verbatim>\<open>JSON.stringify(requestParams)\<close>, the copy of \<^verbatim>\<open>params\<close> with the two length parameters added when defined.\<close>

definition requestBody :: "Params \<Rightarrow> int option \<Rightarrow> int option \<Rightarrow> string" where
  "requestBody params max_length start_index =
    ''{'' @ paramsMember params @
    optionalNumber ''max_length'' max_length @
    optionalNumber ''start_index'' start_index @ ''}''"

record Request =
  url :: string
  "method" :: string
  headers :: "(string \<times> string) list"
  body :: string

definition requestHeaders :: "string \<Rightarrow> JinaEngineType \<Rightarrow> (string \<times> string) list" where
  "requestHeaders key engine =
    [(''Accept'', ''application/json''),
     (''Authorization'', ''Bearer '' @ key),
     (''X-Return-Format'', ''markdown''),
     (''X-With-Links-Summary'', ''true''),
     (''Content-Type'', ''application/json''),
     (''X-Cache'', ''true'')]
    @ (if engine \<noteq> none then [(''X-Engine'', engineName engine)] else [])"

text \<open>The one call \<^verbatim>\<open>fetch("https://r.jina.ai/", { method: "POST", headers, body })\<close>.\<close>

definition upstreamRequest ::
  "string \<Rightarrow> Params \<Rightarrow> JinaEngineType \<Rightarrow> int option \<Rightarrow> int option \<Rightarrow> Request" where
  "upstreamRequest key params engine max_length start_index =
    \<lparr>url = ''https://r.jina.ai/'', method = ''POST'',
     headers = requestHeaders key engine,
     body = requestBody params max_length start_index\<rparr>"

subsection \<open>The cache, the environment and the upstream\<close>

text \<open>
  A \<^verbatim>\<open>CacheEntry\<close>; its \<^verbatim>\<open>data\<close> property is called \<open>payload\<close> here, the name
  \<open>data\<close> being taken by the property of the result.
\<close>

record CacheEntry =
  payload :: Body
  timestamp :: int

definition CACHE_TTL :: int where
  "CACHE_TTL = 3 * 60 * 60 * 1000"

text \<open>
  The state the module keeps between calls: the credential read from
  \<^verbatim>\<open>process.env.JINA_API_KEY\<close>, the \<^verbatim>\<open>cache\<close> object, and (as a ghost field) the
  list of \<^verbatim>\<open>fetch\<close> calls issued so far, oldest first.
\<close>

record World =
  apiKey :: "string option"
  cache :: "string \<rightharpoonup> CacheEntry"
  fetchCalls :: "Request list"

text \<open>
  What one reply of the upstream looks like to the code: \<^verbatim>\<open>response.ok\<close>,
  \<^verbatim>\<open>response.status\<close>, and the outcome of \<^verbatim>\<open>response.json()\<close>, which either throws
  (\<open>Inl\<close> of the message) or yields the parsed body. \<^verbatim>\<open>fetch\<close> itself may reject.
\<close>

record Response =
  ok :: bool
  status :: int
  json :: "string + Body"

datatype FetchOutcome = Rejected string | Responded Response

text \<open>
  What one invocation reads from outside: the clock at the cache lookup, the behaviour
  of the upstream, and the clock when the reply is stored.
\<close>

record Ambient =
  nowAtLookup :: int
  fetch :: "Request \<Rightarrow> FetchOutcome"
  nowAtStore :: int

text \<open>Lines 62 to 110, the \<^verbatim>\<open>try\<close> block: every error caught there is thrown again unchanged.\<close>

definition callUpstream ::
  "World \<Rightarrow> Ambient \<Rightarrow> string \<Rightarrow> string \<Rightarrow> Params \<Rightarrow> JinaEngineType \<Rightarrow> int option \<Rightarrow> int option
    \<Rightarrow> bool \<Rightarrow> (Error + Body) \<times> World" where
  "callUpstream w amb key cacheKey' params engine max_length start_index useCache =
    (let request = upstreamRequest key params engine max_length start_index;
         w = w\<lparr>fetchCalls := fetchCalls w @ [request]\<rparr>
     in case fetch amb request of
          Rejected msg \<Rightarrow> (Inl (Error msg), w)
        | Responded response \<Rightarrow>
            if \<not> ok response
            then (Inl (Error (''Jina API error: '' @ numStr (status response))), w)
            else (case json response of
                    Inl msg \<Rightarrow> (Inl (Error msg), w)
                  | Inr result \<Rightarrow>
                      (Inr result,
                       if useCache
                       then w\<lparr>cache := (cache w)(cacheKey' \<mapsto>
                                \<lparr>payload = result, timestamp = nowAtStore amb\<rparr>)\<rparr>
                       else w)))"

definition callJinaReaderAPI ::
  "World \<Rightarrow> Ambient \<Rightarrow> Params \<Rightarrow> JinaEngineType \<Rightarrow> int option \<Rightarrow> int option \<Rightarrow> bool
    \<Rightarrow> (Error + Body) \<times> World" where
  "callJinaReaderAPI w amb params engine max_length start_index useCache =
    (if \<not> truthyStr (apiKey w)
     then (Inl (Error ''JINA_API_KEY not configured. Please set it in your .env file.''), w)
     else
       let key = the (apiKey w);
           cacheKey' = cacheKey params engine max_length start_index
       in case (if useCache then cache w cacheKey' else None) of
            Some entry \<Rightarrow>
              if nowAtLookup amb - timestamp entry < CACHE_TTL
              then (Inr (payload entry), w)
              else callUpstream (w\<lparr>cache := (cache w)(cacheKey' := None)\<rparr>) amb key cacheKey'
                     params engine max_length start_index useCache
          | None \<Rightarrow>
              callUpstream w amb key cacheKey' params engine max_length start_index useCache)"

subsection \<open>The three tool handlers\<close>

text \<open>The default \<^verbatim>\<open>engine = "none"\<close> of the handlers' argument pattern.\<close>

definition engineOrDefault :: "JinaEngineType option \<Rightarrow> JinaEngineType" where
  "engineOrDefault engine = (case engine of None \<Rightarrow> none | Some e \<Rightarrow> e)"

text \<open>\<^verbatim>\<open>start_index || 0\<close>\<close>

definition startOrZero :: "int option \<Rightarrow> int" where
  "startOrZero start_index = (case start_index of None \<Rightarrow> 0 | Some n \<Rightarrow> if n = 0 then 0 else n)"

text \<open>
  A handler is an asynchronous function: its outcome is a thrown error (\<open>Inl\<close>) or
  the envelope it returns (\<open>Inr\<close>). The \<^verbatim>\<open>try\<close> block holds the call of the client and
  the call of the formatter; the \<^verbatim>\<open>catch\<close> block turns an error thrown by either into
  an envelope.
\<close>

definition jina_read_url ::
  "World \<Rightarrow> Ambient \<Rightarrow> string \<Rightarrow> JinaEngineType option \<Rightarrow> int option \<Rightarrow> int option
    \<Rightarrow> (Error + Envelope) \<times> World" where
  "jina_read_url w amb u engine max_length start_index =
    (case callJinaReaderAPI w amb (Url u) (engineOrDefault engine) max_length start_index True of
       (Inr result, w') \<Rightarrow>
         (case formatBody result max_length (startOrZero start_index) of
            Inr formatted \<Rightarrow> (Inr (textEnvelope formatted), w')
          | Inl error \<Rightarrow> (Inr (textEnvelope (''Error: '' @ message error)), w'))
     | (Inl error, w') \<Rightarrow> (Inr (textEnvelope (''Error: '' @ message error)), w'))"

definition jina_read_html ::
  "World \<Rightarrow> Ambient \<Rightarrow> string \<Rightarrow> JinaEngineType option \<Rightarrow> int option \<Rightarrow> int option
    \<Rightarrow> (Error + Envelope) \<times> World" where
  "jina_read_html w amb html engine max_length start_index =
    (case callJinaReaderAPI w amb (Html html) (engineOrDefault engine) max_length start_index True of
       (Inr result, w') \<Rightarrow>
         (case formatBody result max_length (startOrZero start_index) of
            Inr formatted \<Rightarrow> (Inr (textEnvelope formatted), w')
          | Inl error \<Rightarrow> (Inr (textEnvelope (''Error: '' @ message error)), w'))
     | (Inl error, w') \<Rightarrow> (Inr (textEnvelope (''Error: '' @ message error)), w'))"

definition jina_read_pdf ::
  "World \<Rightarrow> Ambient \<Rightarrow> string \<Rightarrow> JinaEngineType option \<Rightarrow> int option \<Rightarrow> int option
    \<Rightarrow> (Error + Envelope) \<times> World" where
  "jina_read_pdf w amb pdf engine max_length start_index =
    (case callJinaReaderAPI w amb (Pdf pdf) (engineOrDefault engine) max_length start_index True of
       (Inr result, w') \<Rightarrow>
         (case formatBody result max_length (startOrZero start_index) of
            Inr formatted \<Rightarrow> (Inr (textEnvelope formatted), w')
          | Inl error \<Rightarrow> (Inr (textEnvelope (''Error: '' @ message error)), w'))
     | (Inl error, w') \<Rightarrow> (Inr (textEnvelope (''Error: '' @ message error)), w'))"

text \<open>The three registered tools, each with the \<^verbatim>\<open>params\<close> object it builds from its first argument.\<close>

definition toolHandlers ::
  "((World \<Rightarrow> Ambient \<Rightarrow> string \<Rightarrow> JinaEngineType option \<Rightarrow> int option \<Rightarrow> int option
      \<Rightarrow> (Error + Envelope) \<times> World) \<times> (string \<Rightarrow> Params)) list" where
  "toolHandlers = [(jina_read_url, Url), (jina_read_html, Html), (jina_read_pdf, Pdf)]"

text \<open>The body the three handlers have in common, for the proofs.\<close>

definition handlerBody ::
  "(string \<Rightarrow> Params) \<Rightarrow> World \<Rightarrow> Ambient \<Rightarrow> string \<Rightarrow> JinaEngineType option \<Rightarrow> int option
    \<Rightarrow> int option \<Rightarrow> (Error + Envelope) \<times> World" where
  "handlerBody P w amb x engine max_length start_index =
    (case callJinaReaderAPI w amb (P x) (engineOrDefault engine) max_length start_index True of
       (Inr result, w') \<Rightarrow>
         (case formatBody result max_length (startOrZero start_index) of
            Inr formatted \<Rightarrow> (Inr (textEnvelope formatted), w')
          | Inl error \<Rightarrow> (Inr (textEnvelope (''Error: '' @ message error)), w'))
     | (Inl error, w') \<Rightarrow> (Inr (textEnvelope (''Error: '' @ message error)), w'))"

subsection \<open>Auxiliary definitions: example inputs and a character class\<close>

definition emptyData :: Data where
  "emptyData = \<lparr>title = None, description = None, content = None, links = None,
                 warning = None, usage = None\<rparr>"

text \<open>A payload whose only property is a \<^verbatim>\<open>content\<close> of \<open>n\<close> letters.\<close>

definition longResult :: "nat \<Rightarrow> Result" where
  "longResult n = \<lparr>data = Some (emptyData\<lparr>content := Some (replicate n (CHR ''a''))\<rparr>)\<rparr>"

text \<open>The characters a rendered number can contain.\<close>

definition isNumChar :: "char \<Rightarrow> bool" where
  "isNumChar c = (c = CHR ''-'' \<or> c \<in> set ''0123456789'')"

text \<open>Worlds: one with a cached reply stored at time 1000, one without credential, one with an empty cache.\<close>

definition exampleKey :: string where
  "exampleKey = cacheKey (Url ''https://example.com'') none None None"

definition cachedWorld :: World where
  "cachedWorld = \<lparr>apiKey = Some ''secret'',
                   cache = [exampleKey \<mapsto> \<lparr>payload = Shaped \<lparr>data = None\<rparr>, timestamp = 1000\<rparr>],
                   fetchCalls = []\<rparr>"

definition keylessWorld :: World where
  "keylessWorld = \<lparr>apiKey = None, cache = Map.empty, fetchCalls = []\<rparr>"

definition freshWorld :: World where
  "freshWorld = \<lparr>apiKey = Some ''secret'', cache = Map.empty, fetchCalls = []\<rparr>"

text \<open>An invocation at time \<open>now\<close> whose upstream call, if made, ends in \<open>outcome\<close>.\<close>

definition replying :: "int \<Rightarrow> FetchOutcome \<Rightarrow> Ambient" where
  "replying now outcome = \<lparr>nowAtLookup = now, fetch = (\<lambda>request. outcome), nowAtStore = now + 1\<rparr>"

definition okReply :: "Body \<Rightarrow> FetchOutcome" where
  "okReply r = Responded \<lparr>ok = True, status = 200, json = Inr r\<rparr>"

definition failing :: "int \<Rightarrow> FetchOutcome" where
  "failing code = Responded \<lparr>ok = False, status = code, json = Inl ''Unexpected token''\<rparr>"

definition unparsable :: FetchOutcome where
  "unparsable = Responded \<lparr>ok = True, status = 200, json = Inl ''Unexpected token < in JSON''\<rparr>"

section \<open>Properties of the formatter\<close>

subsection \<open>The two branches of the pagination step\<close>

lemma paginate_clip:
  "int (length out) > effectiveMaxLength m \<Longrightarrow>
   paginate out m s = take (nat (effectiveMaxLength m)) out
      @ clippedTrailer s (s + effectiveMaxLength m) (int (length out))"
  by (simp add: paginate_def Let_def substring0_def)

lemma paginate_fit:
  "int (length out) \<le> effectiveMaxLength m \<Longrightarrow>
   paginate out m s = (if s > 0 then out @ endTrailer s (s + int (length out)) else out)"
  by (simp add: paginate_def Let_def)

lemma length_noContent: "length noContent = 51"
  by (simp add: noContent_def)

lemma length_clippedTrailer: "length (clippedTrailer a b c) > 100"
  by (simp add: clippedTrailer_def)

lemma length_endTrailer: "length (endTrailer a b) > 0"
  by (simp add: endTrailer_def)

lemma assemble_longResult:
  "0 < n \<Longrightarrow> assemble (longResult n) = replicate n (CHR ''a'') @ [CHR 0x0A, CHR 0x0A]"
  by (simp add: assemble_def longResult_def emptyData_def assembleData_def Let_def)

lemma numStr_0: "numStr 0 = ''0''"
  by (simp add: numStr_def natStr.simps digitChar_def)

lemma numStr_10: "numStr 10 = ''10''"
  by (simp add: numStr_def natStr.simps digitChar_def)

lemma numStr_51: "numStr 51 = ''51''"
  by (simp add: numStr_def natStr.simps digitChar_def)

lemma numStr_20000: "numStr 20000 = ''20000''"
  by (simp add: numStr_def natStr.simps digitChar_def)

lemma numStr_25000: "numStr 25000 = ''25000''"
  by (simp add: numStr_def natStr.simps digitChar_def)

subsection \<open>C1: the clipped window\<close>

text \<open>
  C1. Let \<^verbatim>\<open>max_length\<close> be absent or not negative and \<^verbatim>\<open>start_index\<close> not negative,
  as the tool schemas have it, and let \<open>L\<close> be the effective window length:
  \<^verbatim>\<open>max_length\<close> if it is provided and positive, 20000 otherwise. Whenever the
  assembled text is strictly longer than \<open>L\<close>, the returned string is characters
  \<open>[0, L)\<close> of the assembled text, whatever \<^verbatim>\<open>start_index\<close> is, followed by the trailer
  that reports the range \<^verbatim>\<open>start_index\<close> to \<^verbatim>\<open>start_index + L\<close>, the total assembled
  length, and \<^verbatim>\<open>start_index + L\<close> as the next start. The sum and the length are
  assumed to be safe integers.
\<close>

theorem clipped_window:
  assumes "\<forall>n. m = Some n \<longrightarrow> 0 \<le> n"
    and "0 \<le> s"
    and "L = (case m of Some n \<Rightarrow> if 0 < n then n else 20000 | None \<Rightarrow> 20000)"
    and "L < int (length (assemble r))"
    and "isSafeInteger (s + L)"
    and "isSafeInteger (int (length (assemble r)))"
  shows "formatJinaResponse r m s =
     take (nat L) (assemble r) @ [CHR 0x0A, CHR 0x0A] @ ''---'' @ [CHR 0x0A] @
     ''[PAGINATION INFO]'' @ [CHR 0x0A] @
     ''- Content clipped: Currently showing characters '' @ numStr s @ ''-'' @ numStr (s + L) @
       '' of approximately '' @ numStr (int (length (assemble r))) @ '' total'' @ [CHR 0x0A] @
     ''- To view the next section, use start_index='' @ numStr (s + L) @
       '' with the same max_length'' @ [CHR 0x0A] @
     ''- Complete content can be accessed by making multiple paginated requests'' @ [CHR 0x0A]"
proof -
  have "effectiveMaxLength m = L"
    using assms(1,3) by (cases m) (auto simp: effectiveMaxLength_def defaultMaxLength_def)
  with assms(4) show ?thesis
    by (simp add: formatJinaResponse_def paginate_clip clippedTrailer_def)
qed

text \<open>
  The instance the specification names: an assembled text of 25000 characters with
  \<^verbatim>\<open>max_length = 20000\<close> and \<^verbatim>\<open>start_index = 0\<close>.
\<close>

theorem clipped_window_witness:
  "length (assemble (longResult 24998)) = 25000 \<and>
   formatJinaResponse (longResult 24998) (Some 20000) 0 =
     replicate 20000 (CHR ''a'') @ [CHR 0x0A, CHR 0x0A] @ ''---'' @ [CHR 0x0A] @
     ''[PAGINATION INFO]'' @ [CHR 0x0A] @
     ''- Content clipped: Currently showing characters 0-20000 of approximately 25000 total''
       @ [CHR 0x0A] @
     ''- To view the next section, use start_index=20000 with the same max_length'' @ [CHR 0x0A] @
     ''- Complete content can be accessed by making multiple paginated requests'' @ [CHR 0x0A]"
proof -
  have len: "length (assemble (longResult 24998)) = 25000"
    by (simp add: assemble_longResult)
  have "formatJinaResponse (longResult 24998) (Some 20000) 0 =
     take (nat 20000) (assemble (longResult 24998)) @ [CHR 0x0A, CHR 0x0A] @ ''---'' @ [CHR 0x0A] @
     ''[PAGINATION INFO]'' @ [CHR 0x0A] @
     ''- Content clipped: Currently showing characters '' @ numStr 0 @ ''-'' @ numStr (0 + 20000) @
       '' of approximately '' @ numStr (int (length (assemble (longResult 24998)))) @ '' total''
       @ [CHR 0x0A] @
     ''- To view the next section, use start_index='' @ numStr (0 + 20000) @
       '' with the same max_length'' @ [CHR 0x0A] @
     ''- Complete content can be accessed by making multiple paginated requests'' @ [CHR 0x0A]"
    by (rule clipped_window)
      (simp_all add: len isSafeInteger_def MAX_SAFE_INTEGER_def)
  then show ?thesis
    by (simp add: len assemble_longResult numStr_0 numStr_20000 numStr_25000)
qed

subsection \<open>C2: a reply without payload\<close>

text \<open>
  C2 (as amended). For a result with no data payload the assembled text is the fixed
  literal, and it goes through the pagination step like any other text: the formatter
  returns exactly the literal, with no trailer, if and only if \<^verbatim>\<open>start_index\<close> is not
  positive and the effective window length is at least 51, the length of the literal.
\<close>

theorem no_payload_literal:
  "data r = None \<Longrightarrow>
   assemble r = ''No content extracted or unexpected response format.'' \<and>
   (formatJinaResponse r m s = ''No content extracted or unexpected response format.''
      \<longleftrightarrow> 51 \<le> effectiveMaxLength m \<and> s \<le> 0)"
proof -
  assume d: "data r = None"
  have a: "assemble r = noContent" by (simp add: assemble_def d)
  show ?thesis
  proof (cases "51 \<le> effectiveMaxLength m")
    case True
    then have "formatJinaResponse r m s =
        (if s > 0 then noContent @ endTrailer s (s + 51) else noContent)"
      by (simp add: formatJinaResponse_def a paginate_fit length_noContent)
    moreover have "noContent @ endTrailer s (s + 51) \<noteq> noContent"
      using length_endTrailer [of s "s + 51"] by simp
    ultimately show ?thesis using True a by (auto simp: noContent_def)
  next
    case False
    then have "formatJinaResponse r m s =
        take (nat (effectiveMaxLength m)) noContent @ clippedTrailer s (s + effectiveMaxLength m) 51"
      by (simp add: formatJinaResponse_def a paginate_clip length_noContent)
    then have "length (formatJinaResponse r m s) > 100"
      using length_clippedTrailer [of s "s + effectiveMaxLength m" 51] by simp
    then have "formatJinaResponse r m s \<noteq> noContent"
      using length_noContent by auto
    then show ?thesis using False a by (simp add: noContent_def)
  qed
qed

theorem no_payload_literal_witness:
  "data \<lparr>data = None\<rparr> = None \<and>
   formatJinaResponse \<lparr>data = None\<rparr> (Some 51) 0
     = ''No content extracted or unexpected response format.'' \<and>
   formatJinaResponse \<lparr>data = None\<rparr> None 0
     = ''No content extracted or unexpected response format.''"
  using no_payload_literal [of "\<lparr>data = None\<rparr>" "Some 51" 0]
    no_payload_literal [of "\<lparr>data = None\<rparr>" None 0]
  by (simp add: effectiveMaxLength_def defaultMaxLength_def)

text \<open>
  With \<^verbatim>\<open>max_length = 10\<close>, a value the tool schema accepts, the literal is clipped
  and the trailer is appended: the pagination step is not skipped.
\<close>

theorem no_payload_literal_counterexample:
  "formatJinaResponse \<lparr>data = None\<rparr> (Some 10) 0 =
     ''No content'' @ [CHR 0x0A, CHR 0x0A] @ ''---'' @ [CHR 0x0A] @
     ''[PAGINATION INFO]'' @ [CHR 0x0A] @
     ''- Content clipped: Currently showing characters 0-10 of approximately 51 total''
       @ [CHR 0x0A] @
     ''- To view the next section, use start_index=10 with the same max_length'' @ [CHR 0x0A] @
     ''- Complete content can be accessed by making multiple paginated requests'' @ [CHR 0x0A] \<and>
   formatJinaResponse \<lparr>data = None\<rparr> (Some 10) 0
     \<noteq> ''No content extracted or unexpected response format.''"
  by (simp add: formatJinaResponse_def assemble_def paginate_def effectiveMaxLength_def
      substring0_def noContent_def clippedTrailer_def numStr_0 numStr_10 numStr_51)

subsection \<open>C5: the fallback to the default window\<close>



subsection \<open>C10: a payload with nothing in it\<close>

lemma assembleData_blank:
  "\<not> truthyStr (title d) \<Longrightarrow> \<not> truthyStr (description d) \<Longrightarrow> \<not> truthyStr (Data.content d) \<Longrightarrow>
   links d = None \<or> links d = Some [] \<Longrightarrow> \<not> truthyStr (warning d) \<Longrightarrow>
   usage d = None \<or> \<not> truthyNum (tokens (the (usage d))) \<Longrightarrow>
   assembleData d = []"
  by (auto simp: assembleData_def Let_def)

text \<open>
  C10. When the data payload is present but its title, description, content and
  warning are absent or empty and it has no links and no non-zero token count, the
  formatter, called with a \<^verbatim>\<open>max_length\<close> that is absent or not negative as the tool
  schemas have it, returns the empty string for \<^verbatim>\<open>start_index = 0\<close>, not the
  no-content literal, and for a positive \<^verbatim>\<open>start_index\<close> (a safe integer) it returns
  only the end-of-content trailer.
\<close>

theorem blank_payload:
  assumes "data r = Some d"
    and "\<not> truthyStr (title d)" and "\<not> truthyStr (description d)"
    and "\<not> truthyStr (Data.content d)" and "links d = None \<or> links d = Some []"
    and "\<not> truthyStr (warning d)"
    and "usage d = None \<or> \<not> truthyNum (tokens (the (usage d)))"
    and "\<forall>n. m = Some n \<longrightarrow> 0 \<le> n"
  shows "formatJinaResponse r m 0 = [] \<and>
         formatJinaResponse r m 0 \<noteq> ''No content extracted or unexpected response format.'' \<and>
         (0 < s \<and> isSafeInteger s \<longrightarrow>
            formatJinaResponse r m s =
              [CHR 0x0A, CHR 0x0A] @ ''---'' @ [CHR 0x0A] @
              ''[PAGINATION INFO]'' @ [CHR 0x0A] @
              ''- Showing characters '' @ numStr s @ ''-'' @ numStr s @ '' of the document''
                @ [CHR 0x0A] @
              ''- This appears to be the end of the content'' @ [CHR 0x0A])"
proof -
  have a: "assemble r = []"
    using assms by (simp add: assemble_def assembleData_blank)
  have "0 \<le> effectiveMaxLength m"
    using assms(8) by (cases m) (auto simp: effectiveMaxLength_def defaultMaxLength_def)
  then show ?thesis
    by (simp add: formatJinaResponse_def a paginate_fit endTrailer_def)
qed

theorem blank_payload_witness:
  "formatJinaResponse \<lparr>data = Some emptyData\<rparr> (Some 100) 0 = [] \<and>
   formatJinaResponse \<lparr>data = Some emptyData\<rparr> (Some 100) 7 =
     [CHR 0x0A, CHR 0x0A] @ ''---'' @ [CHR 0x0A] @
     ''[PAGINATION INFO]'' @ [CHR 0x0A] @
     ''- Showing characters 7-7 of the document'' @ [CHR 0x0A] @
     ''- This appears to be the end of the content'' @ [CHR 0x0A]"
  using blank_payload [of "\<lparr>data = Some emptyData\<rparr>" emptyData "Some 100" 7]
  by (simp add: emptyData_def numStr_def natStr.simps digitChar_def isSafeInteger_def
      MAX_SAFE_INTEGER_def)

section \<open>Properties of the cache key\<close>

subsection \<open>Rendered numbers determine the number\<close>

lemma digitChar_inj: "a < 10 \<Longrightarrow> b < 10 \<Longrightarrow> digitChar a = digitChar b \<Longrightarrow> a = b"
proof -
  assume a: "a < 10" and b: "b < 10" and e: "digitChar a = digitChar b"
  have d: "distinct ''0123456789''" by simp
  have "''0123456789'' ! a = ''0123456789'' ! b"
    using e a b by (simp add: digitChar_def)
  with d a b show "a = b"
    by (simp add: nth_eq_iff_index_eq)
qed

lemma natStr_small: "n < 10 \<Longrightarrow> natStr n = [digitChar n]"
  by (subst natStr.simps) simp

lemma natStr_big: "\<not> n < 10 \<Longrightarrow> natStr n = natStr (n div 10) @ [digitChar (n mod 10)]"
  by (subst natStr.simps) simp

lemma natStr_not_Nil: "natStr n \<noteq> []"
  by (cases "n < 10") (simp_all add: natStr_small natStr_big)

lemma natStr_inj: "natStr a = natStr b \<Longrightarrow> a = b"
proof (induction a arbitrary: b rule: natStr.induct)
  case (1 n)
  note eq = \<open>natStr n = natStr b\<close>
  show ?case
  proof (cases "n < 10")
    case small: True
    show ?thesis
    proof (cases "b < 10")
      case True
      from eq have "digitChar n = digitChar b"
        by (simp add: natStr_small small True)
      with small True show ?thesis
        by (rule digitChar_inj)
    next
      case False
      from eq have "[digitChar n] = natStr (b div 10) @ [digitChar (b mod 10)]"
        by (simp add: natStr_small small natStr_big False)
      then show ?thesis
        using natStr_not_Nil [of "b div 10"] by simp
    qed
  next
    case big: False
    show ?thesis
    proof (cases "b < 10")
      case True
      from eq have "natStr (n div 10) @ [digitChar (n mod 10)] = [digitChar b]"
        by (simp add: natStr_small True natStr_big big)
      then show ?thesis
        using natStr_not_Nil [of "n div 10"] by simp
    next
      case False
      from eq have "natStr (n div 10) @ [digitChar (n mod 10)]
          = natStr (b div 10) @ [digitChar (b mod 10)]"
        by (simp add: natStr_big big False)
      then have q: "natStr (n div 10) = natStr (b div 10)"
        and r: "digitChar (n mod 10) = digitChar (b mod 10)"
        by simp_all
      have dv: "n div 10 = b div 10"
        by (rule "1.IH" [OF big q])
      have md: "n mod 10 = b mod 10"
        by (rule digitChar_inj [OF _ _ r]) simp_all
      have "n = 10 * (n div 10) + n mod 10" by simp
      also have "\<dots> = 10 * (b div 10) + b mod 10" by (simp only: dv md)
      also have "\<dots> = b" by simp
      finally show ?thesis .
    qed
  qed
qed

lemma digitChar_mem: "digitChar d \<in> set ''0123456789''"
  unfolding digitChar_def by (rule nth_mem) simp

lemma natStr_digits: "set (natStr n) \<subseteq> set ''0123456789''"
proof (induction n rule: natStr.induct)
  case (1 n)
  show ?case
  proof (cases "n < 10")
    case True
    then show ?thesis
      using digitChar_mem [of n] by (simp add: natStr_small)
  next
    case False
    then show ?thesis
      using "1.IH" digitChar_mem [of "n mod 10"] by (simp add: natStr_big)
  qed
qed



lemma natStr_numChars: "c \<in> set (natStr n) \<Longrightarrow> isNumChar c"
proof -
  assume "c \<in> set (natStr n)"
  with natStr_digits [of n] have "c \<in> set ''0123456789''" by (rule subsetD)
  then show ?thesis by (simp only: isNumChar_def simp_thms)
qed

lemma numStr_numChars: "c \<in> set (numStr n) \<Longrightarrow> isNumChar c"
proof -
  assume c: "c \<in> set (numStr n)"
  show ?thesis
  proof (cases "n < 0")
    case True
    with c have "c = CHR ''-'' \<or> c \<in> set (natStr (nat (- n)))"
      by (simp add: numStr_def)
    then show ?thesis
    proof
      assume "c = CHR ''-''"
      then show ?thesis by (simp only: isNumChar_def simp_thms)
    next
      assume "c \<in> set (natStr (nat (- n)))"
      then show ?thesis by (rule natStr_numChars)
    qed
  next
    case False
    with c have "c \<in> set (natStr (nat n))"
      by (simp add: numStr_def)
    then show ?thesis by (rule natStr_numChars)
  qed
qed


lemma minus_not_digit: "CHR ''-'' \<notin> set ''0123456789''"
  by simp

lemma hd_natStr: "hd (natStr n) \<noteq> CHR ''-''"
proof
  assume "hd (natStr n) = CHR ''-''"
  moreover have "hd (natStr n) \<in> set (natStr n)"
    by (simp add: natStr_not_Nil)
  ultimately have "CHR ''-'' \<in> set (natStr n)" by simp
  with natStr_digits [of n] have "CHR ''-'' \<in> set ''0123456789''" by (rule subsetD)
  with minus_not_digit show False by (rule notE)
qed


lemma numStr_inj: "numStr a = numStr b \<Longrightarrow> a = b"
proof -
  assume e: "numStr a = numStr b"
  show ?thesis
  proof (cases "a < 0")
    case an: True
    show ?thesis
    proof (cases "b < 0")
      case True
      with an e have "natStr (nat (- a)) = natStr (nat (- b))"
        by (simp add: numStr_def)
      then have "nat (- a) = nat (- b)" by (rule natStr_inj)
      with an True show ?thesis by simp
    next
      case False
      with an e have "natStr (nat b) = CHR ''-'' # natStr (nat (- a))"
        by (simp add: numStr_def)
      then have "hd (natStr (nat b)) = CHR ''-''"
        by (simp only: list.sel)
      with hd_natStr [of "nat b"] show ?thesis by (rule notE)
    qed
  next
    case ap: False
    show ?thesis
    proof (cases "b < 0")
      case True
      with ap e have "natStr (nat a) = CHR ''-'' # natStr (nat (- b))"
        by (simp add: numStr_def)
      then have "hd (natStr (nat a)) = CHR ''-''"
        by (simp only: list.sel)
      with hd_natStr [of "nat a"] show ?thesis by (rule notE)
    next
      case False
      with ap e have "natStr (nat a) = natStr (nat b)"
        by (simp add: numStr_def)
      then have "nat a = nat b" by (rule natStr_inj)
      with ap False show ?thesis by simp
    qed
  qed
qed

lemma takeWhile_numStr:
  "\<not> isNumChar c \<Longrightarrow> takeWhile isNumChar (numStr a @ c # r) = numStr a"
  by (simp add: numStr_numChars)

lemma numStr_delimited:
  assumes "numStr a @ c # r = numStr b @ c' # r'" and "\<not> isNumChar c" and "\<not> isNumChar c'"
  shows "a = b \<and> c # r = c' # r'"
proof -
  have "takeWhile isNumChar (numStr a @ c # r) = takeWhile isNumChar (numStr b @ c' # r')"
    by (simp only: assms(1))
  then have e: "numStr a = numStr b"
    by (simp only: takeWhile_numStr [OF assms(2)] takeWhile_numStr [OF assms(3)])
  then have "a = b" by (rule numStr_inj)
  moreover from e assms(1) have "c # r = c' # r'" by simp
  ultimately show ?thesis ..
qed

subsection \<open>Quoted strings determine the string\<close>

lemma hexDigit_inj: "a < 16 \<Longrightarrow> b < 16 \<Longrightarrow> hexDigit a = hexDigit b \<Longrightarrow> a = b"
proof -
  assume a: "a < 16" and b: "b < 16" and e: "hexDigit a = hexDigit b"
  have d: "distinct ''0123456789abcdef''" by simp
  have "''0123456789abcdef'' ! a = ''0123456789abcdef'' ! b"
    using e a b by (simp add: hexDigit_def)
  with d a b show "a = b"
    by (simp add: nth_eq_iff_index_eq)
qed

lemma control_code_inj:
  assumes "(of_char c :: nat) < 32" and "(of_char c' :: nat) < 32"
    and "hexDigit (of_char c div 16) = hexDigit (of_char c' div 16)"
    and "hexDigit (of_char c mod 16) = hexDigit (of_char c' mod 16)"
  shows "c = c'"
proof -
  have dv: "(of_char c :: nat) div 16 = of_char c' div 16"
    using assms(1,2) by (intro hexDigit_inj [OF _ _ assms(3)]) simp_all
  have md: "(of_char c :: nat) mod 16 = of_char c' mod 16"
    by (rule hexDigit_inj [OF _ _ assms(4)]) simp_all
  have "(of_char c :: nat) = 16 * (of_char c div 16) + of_char c mod 16" by simp
  also have "\<dots> = 16 * (of_char c' div 16) + of_char c' mod 16" by (simp only: dv md)
  also have "\<dots> = of_char c'" by simp
  finally show ?thesis by simp
qed

lemma jsonEscapes_inj:
  "map_of jsonEscapes c = Some e \<Longrightarrow> map_of jsonEscapes c' = Some e \<Longrightarrow> c = c'"
  by (auto simp add: jsonEscapes_def split: if_splits)

lemma jsonEscapes_not_u: "map_of jsonEscapes c = Some e \<Longrightarrow> e \<noteq> CHR ''u''"
  by (auto simp add: jsonEscapes_def split: if_splits)

lemma jsonEscapes_None:
  "map_of jsonEscapes c = None \<Longrightarrow> c \<noteq> CHR 0x5C \<and> c \<noteq> CHR 0x22"
  by (auto simp add: jsonEscapes_def split: if_splits)


lemma escapeChar_cancel:
  assumes "escapeChar c @ X = escapeChar c' @ X'"
  shows "c = c' \<and> X = X'"
proof (cases "map_of jsonEscapes c")
  case (Some e)
  then have l: "escapeChar c = [CHR 0x5C, e]" by (simp add: escapeChar_def)
  show ?thesis
  proof (cases "map_of jsonEscapes c'")
    case s': (Some e')
    then have "escapeChar c' = [CHR 0x5C, e']" by (simp add: escapeChar_def)
    with l assms have "e = e'" and x: "X = X'" by simp_all
    with Some s' have "c = c'" by (simp add: jsonEscapes_inj)
    with x show ?thesis by simp
  next
    case None
    show ?thesis
    proof (cases "(of_char c' :: nat) < 32")
      case True
      with None have "escapeChar c' = [CHR 0x5C, CHR ''u'', CHR ''0'', CHR ''0'',
               hexDigit (of_char c' div 16), hexDigit (of_char c' mod 16)]"
        by (simp add: escapeChar_def)
      with l assms have "e = CHR ''u''" by simp
      with jsonEscapes_not_u [OF Some] show ?thesis by (rule notE)
    next
      case False
      with None have "escapeChar c' = [c']" by (simp add: escapeChar_def)
      with l assms have "c' = CHR 0x5C" by simp
      with jsonEscapes_None [OF None] show ?thesis by simp
    qed
  qed
next
  case None
  show ?thesis
  proof (cases "(of_char c :: nat) < 32")
    case ctl: True
    with None have l: "escapeChar c = [CHR 0x5C, CHR ''u'', CHR ''0'', CHR ''0'',
               hexDigit (of_char c div 16), hexDigit (of_char c mod 16)]"
      by (simp add: escapeChar_def)
    show ?thesis
    proof (cases "map_of jsonEscapes c'")
      case (Some e')
      then have "escapeChar c' = [CHR 0x5C, e']" by (simp add: escapeChar_def)
      with l assms have "e' = CHR ''u''" by simp
      with jsonEscapes_not_u [OF Some] show ?thesis by (rule notE)
    next
      case n': None
      show ?thesis
      proof (cases "(of_char c' :: nat) < 32")
        case True
        with n' have "escapeChar c' = [CHR 0x5C, CHR ''u'', CHR ''0'', CHR ''0'',
               hexDigit (of_char c' div 16), hexDigit (of_char c' mod 16)]"
          by (simp add: escapeChar_def)
        with l assms have h1: "hexDigit (of_char c div 16) = hexDigit (of_char c' div 16)"
          and h2: "hexDigit (of_char c mod 16) = hexDigit (of_char c' mod 16)"
          and x: "X = X'"
          by simp_all
        have "c = c'" by (rule control_code_inj [OF ctl True h1 h2])
        with x show ?thesis by simp
      next
        case False
        with n' have "escapeChar c' = [c']" by (simp add: escapeChar_def)
        with l assms have "c' = CHR 0x5C" by simp
        with jsonEscapes_None [OF n'] show ?thesis by simp
      qed
    qed
  next
    case plain: False
    with None have l: "escapeChar c = [c]" by (simp add: escapeChar_def)
    show ?thesis
    proof (cases "map_of jsonEscapes c'")
      case (Some e')
      then have "escapeChar c' = [CHR 0x5C, e']" by (simp add: escapeChar_def)
      with l assms have "c = CHR 0x5C" by simp
      with jsonEscapes_None [OF None] show ?thesis by simp
    next
      case n': None
      show ?thesis
      proof (cases "(of_char c' :: nat) < 32")
        case True
        with n' have "escapeChar c' = [CHR 0x5C, CHR ''u'', CHR ''0'', CHR ''0'',
               hexDigit (of_char c' div 16), hexDigit (of_char c' mod 16)]"
          by (simp add: escapeChar_def)
        with l assms have "c = CHR 0x5C" by simp
        with jsonEscapes_None [OF None] show ?thesis by simp
      next
        case False
        with n' have "escapeChar c' = [c']" by (simp add: escapeChar_def)
        with l assms show ?thesis by simp
      qed
    qed
  qed
qed

lemma hd_escapeChar: "escapeChar c = x # xs \<Longrightarrow> x \<noteq> CHR 0x22"
proof (cases "map_of jsonEscapes c")
  case (Some e)
  assume "escapeChar c = x # xs"
  with Some show ?thesis by (auto simp add: escapeChar_def)
next
  case None
  assume "escapeChar c = x # xs"
  with None jsonEscapes_None [OF None] show ?thesis
    by (auto simp add: escapeChar_def split: if_splits)
qed

lemma escapeChar_not_Nil: "escapeChar c \<noteq> []"
  by (simp add: escapeChar_def split: option.split)


lemma escaped_cancel:
  "concat (map escapeChar s) @ CHR 0x22 # r = concat (map escapeChar s') @ CHR 0x22 # r'
   \<Longrightarrow> s = s' \<and> r = r'"
proof (induction s arbitrary: s')
  case Nil
  show ?case
  proof (cases s')
    case Nil
    with Nil.prems show ?thesis by simp
  next
    case (Cons c t)
    obtain x xs where e: "escapeChar c = x # xs"
      using escapeChar_not_Nil [of c] by (cases "escapeChar c") auto
    with Nil.prems Cons have "x = CHR 0x22" by simp
    with hd_escapeChar [OF e] show ?thesis by (rule notE)
  qed
next
  case (Cons c t)
  show ?case
  proof (cases s')
    case Nil
    obtain x xs where e: "escapeChar c = x # xs"
      using escapeChar_not_Nil [of c] by (cases "escapeChar c") auto
    with Cons.prems Nil have "x = CHR 0x22" by simp
    with hd_escapeChar [OF e] show ?thesis by (rule notE)
  next
    case c': (Cons c' t')
    with Cons.prems have
      "escapeChar c @ (concat (map escapeChar t) @ CHR 0x22 # r)
       = escapeChar c' @ (concat (map escapeChar t') @ CHR 0x22 # r')"
      by simp
    then have "c = c' \<and>
      concat (map escapeChar t) @ CHR 0x22 # r = concat (map escapeChar t') @ CHR 0x22 # r'"
      by (rule escapeChar_cancel)
    then have hd: "c = c'" and "t = t' \<and> r = r'"
      using Cons.IH [of t'] by simp_all
    with c' show ?thesis by simp
  qed
qed

lemma quoteJSONString_cancel:
  "quoteJSONString s @ r = quoteJSONString s' @ r' \<Longrightarrow> s = s' \<and> r = r'"
proof -
  assume "quoteJSONString s @ r = quoteJSONString s' @ r'"
  then have "concat (map escapeChar s) @ CHR 0x22 # r = concat (map escapeChar s') @ CHR 0x22 # r'"
    by (simp add: quoteJSONString_def)
  then show ?thesis by (rule escaped_cancel)
qed

subsection \<open>The key determines the request\<close>

lemma engineName_inj: "engineName e = engineName e' \<Longrightarrow> e = e'"
  by (cases e; cases e') simp_all

lemma paramsMember_cancel:
  assumes "paramsMember p @ R = paramsMember p' @ R'"
  shows "p = p' \<and> R = R'"
proof -
  obtain k v where p: "paramsMember p = quoteJSONString k @ '':'' @ quoteJSONString v"
    and pk: "p = (if k = ''url'' then Url v else if k = ''html'' then Html v else Pdf v)"
    by (cases p) simp_all
  obtain k' v' where p': "paramsMember p' = quoteJSONString k' @ '':'' @ quoteJSONString v'"
    and pk': "p' = (if k' = ''url'' then Url v' else if k' = ''html'' then Html v' else Pdf v')"
    by (cases p') simp_all
  from assms p p' have
    "quoteJSONString k @ ('':'' @ quoteJSONString v @ R)
     = quoteJSONString k' @ ('':'' @ quoteJSONString v' @ R')"
    by simp
  then have "k = k' \<and> '':'' @ quoteJSONString v @ R = '':'' @ quoteJSONString v' @ R'"
    by (rule quoteJSONString_cancel)
  then have k: "k = k'" and "quoteJSONString v @ R = quoteJSONString v' @ R'"
    by simp_all
  from this(2) have "v = v' \<and> R = R'"
    by (rule quoteJSONString_cancel)
  with k pk pk' show ?thesis by simp
qed

lemma start_index_inj:
  assumes "optionalNumber ''start_index'' s @ ''}'' = optionalNumber ''start_index'' s' @ ''}''"
  shows "s = s'"
proof (cases s)
  case None
  with assms show ?thesis by (cases s') (simp_all add: optionalNumber_def)
next
  case (Some a)
  show ?thesis
  proof (cases s')
    case None
    with Some assms show ?thesis by (simp add: optionalNumber_def)
  next
    case s': (Some b)
    with Some assms have "numStr a = numStr b"
      by (simp add: optionalNumber_def)
    then have "a = b" by (rule numStr_inj)
    with Some s' show ?thesis by simp
  qed
qed

lemma start_index_delimiter:
  "\<exists>c r. optionalNumber ''start_index'' s @ ''}'' = c # r \<and> \<not> isNumChar c"
  by (cases s) (simp_all add: optionalNumber_def isNumChar_def)

lemma length_fields_inj:
  assumes "optionalNumber ''max_length'' m @ optionalNumber ''start_index'' s @ ''}''
         = optionalNumber ''max_length'' m' @ optionalNumber ''start_index'' s' @ ''}''"
  shows "m = m' \<and> s = s'"
proof -
  have differ: False
    if "optionalNumber ''start_index'' x @ ''}''
        = '','' @ quoteJSONString ''max_length'' @ '':'' @ numStr b @ T" for x b T
  proof (cases x)
    case None
    with that show False by (simp add: optionalNumber_def)
  next
    case (Some a)
    with that have "quoteJSONString ''start_index'' @ ('':'' @ numStr a @ ''}'')
        = quoteJSONString ''max_length'' @ ('':'' @ numStr b @ T)"
      by (simp add: optionalNumber_def)
    then have "''start_index'' = ''max_length'' \<and> '':'' @ numStr a @ ''}'' = '':'' @ numStr b @ T"
      by (rule quoteJSONString_cancel)
    then show False by simp
  qed
  show ?thesis
  proof (cases m)
    case None
    show ?thesis
    proof (cases m')
      case n': None
      with None assms have "s = s'"
        by (intro start_index_inj) (simp add: optionalNumber_def)
      with None n' show ?thesis by simp
    next
      case (Some b)
      with None assms have "optionalNumber ''start_index'' s @ ''}''
        = '','' @ quoteJSONString ''max_length'' @ '':'' @ numStr b
          @ (optionalNumber ''start_index'' s' @ ''}'')"
        by (simp add: optionalNumber_def)
      then show ?thesis by (rule differ [THEN FalseE])
    qed
  next
    case (Some a)
    show ?thesis
    proof (cases m')
      case None
      with Some assms have "optionalNumber ''start_index'' s' @ ''}''
        = '','' @ quoteJSONString ''max_length'' @ '':'' @ numStr a
          @ (optionalNumber ''start_index'' s @ ''}'')"
        by (simp add: optionalNumber_def)
      then show ?thesis by (rule differ [THEN FalseE])
    next
      case s': (Some b)
      obtain c r where cr: "optionalNumber ''start_index'' s @ ''}'' = c # r" "\<not> isNumChar c"
        using start_index_delimiter [of s] by blast
      obtain c' r' where cr': "optionalNumber ''start_index'' s' @ ''}'' = c' # r'" "\<not> isNumChar c'"
        using start_index_delimiter [of s'] by blast
      from Some s' assms have "numStr a @ (optionalNumber ''start_index'' s @ ''}'')
          = numStr b @ (optionalNumber ''start_index'' s' @ ''}'')"
        by (simp add: optionalNumber_def)
      then have "numStr a @ c # r = numStr b @ c' # r'"
        by (simp only: cr(1) cr'(1))
      then have "a = b \<and> c # r = c' # r'"
        using cr(2) cr'(2) by (rule numStr_delimited)
      then have ab: "a = b" and "optionalNumber ''start_index'' s @ ''}''
          = optionalNumber ''start_index'' s' @ ''}''"
        by (simp_all add: cr(1) cr'(1))
      from this(2) have "s = s'" by (rule start_index_inj)
      with ab Some s' show ?thesis by simp
    qed
  qed
qed

lemma cacheKey_inj:
  assumes "cacheKey p e m s = cacheKey p' e' m' s'"
  shows "p = p' \<and> e = e' \<and> m = m' \<and> s = s'"
proof -
  let ?T = "\<lambda>m s. optionalNumber ''max_length'' m @ optionalNumber ''start_index'' s @ ''}''"
  let ?R = "\<lambda>e m s. ''},'' @ quoteJSONString ''engine'' @ '':'' @ quoteJSONString (engineName e) @ ?T m s"
  from assms have "paramsMember p @ ?R e m s = paramsMember p' @ ?R e' m' s'"
    by (simp add: cacheKey_def)
  then have "p = p' \<and> ?R e m s = ?R e' m' s'"
    by (rule paramsMember_cancel)
  then have p: "p = p'"
    and "quoteJSONString (engineName e) @ ?T m s = quoteJSONString (engineName e') @ ?T m' s'"
    by simp_all
  from this(2) have "engineName e = engineName e' \<and> ?T m s = ?T m' s'"
    by (rule quoteJSONString_cancel)
  then have "engineName e = engineName e'" and t: "?T m s = ?T m' s'"
    by simp_all
  from this(1) have e: "e = e'" by (rule engineName_inj)
  from t have "m = m' \<and> s = s'"
    by (rule length_fields_inj)
  with p e show ?thesis by simp
qed

subsection \<open>C4: the key is a function of the request and determines it\<close>

text \<open>
  C4. The cache key is a function of the request payload, the engine,
  \<^verbatim>\<open>max_length\<close> and \<^verbatim>\<open>start_index\<close>: equal requests have equal keys, and two
  requests that differ in any of the four, in the engine, in \<^verbatim>\<open>max_length\<close> or only
  in \<^verbatim>\<open>start_index\<close>, have different keys.
\<close>

theorem cacheKey_identifies_request:
  "cacheKey p e m s = cacheKey p' e' m' s' \<longleftrightarrow> p = p' \<and> e = e' \<and> m = m' \<and> s = s'"
proof
  assume "cacheKey p e m s = cacheKey p' e' m' s'"
  then show "p = p' \<and> e = e' \<and> m = m' \<and> s = s'" by (rule cacheKey_inj)
next
  assume "p = p' \<and> e = e' \<and> m = m' \<and> s = s'"
  then show "cacheKey p e m s = cacheKey p' e' m' s'" by simp
qed

section \<open>Properties of the upstream client and the handlers\<close>

subsection \<open>The paths through the client\<close>

lemma callUpstream_fetchCalls:
  "fetchCalls (snd (callUpstream w amb key k p e m s u))
   = fetchCalls w @ [upstreamRequest key p e m s]"
  by (simp add: callUpstream_def Let_def split: FetchOutcome.split sum.split)

lemma callUpstream_cache:
  "cache (snd (callUpstream w amb key k p e m s True))
   = (case fst (callUpstream w amb key k p e m s True) of
        Inl err \<Rightarrow> cache w
      | Inr r \<Rightarrow> (cache w)(k \<mapsto> \<lparr>payload = r, timestamp = nowAtStore amb\<rparr>))"
  by (simp add: callUpstream_def Let_def split: FetchOutcome.split sum.split)

lemma fst_callUpstream:
  "fst (callUpstream w amb key k p e m s u)
   = (case fetch amb (upstreamRequest key p e m s) of
        Rejected msg \<Rightarrow> Inl (Error msg)
      | Responded response \<Rightarrow>
          if \<not> ok response
          then Inl (Error (''Jina API error: '' @ numStr (status response)))
          else (case json response of Inl msg \<Rightarrow> Inl (Error msg) | Inr b \<Rightarrow> Inr b))"
  by (simp add: callUpstream_def Let_def split: FetchOutcome.split sum.split)

lemma callUpstream_ok:
  "fetch amb (upstreamRequest key p e m s) = Responded response \<Longrightarrow> ok response \<Longrightarrow>
   json response = Inr b \<Longrightarrow>
   callUpstream w amb key k p e m s True =
     (Inr b, w\<lparr>fetchCalls := fetchCalls w @ [upstreamRequest key p e m s],
               cache := (cache w)(k \<mapsto> \<lparr>payload = b, timestamp = nowAtStore amb\<rparr>)\<rparr>)"
  by (simp add: callUpstream_def Let_def)

lemma call_hit:
  "truthyStr (apiKey w) \<Longrightarrow> cache w (cacheKey p e m s) = Some entry \<Longrightarrow>
   nowAtLookup amb - timestamp entry < CACHE_TTL \<Longrightarrow>
   callJinaReaderAPI w amb p e m s True = (Inr (payload entry), w)"
  by (simp add: callJinaReaderAPI_def Let_def)

lemma call_expired:
  "truthyStr (apiKey w) \<Longrightarrow> cache w (cacheKey p e m s) = Some entry \<Longrightarrow>
   CACHE_TTL \<le> nowAtLookup amb - timestamp entry \<Longrightarrow>
   callJinaReaderAPI w amb p e m s True =
     callUpstream (w\<lparr>cache := (cache w)(cacheKey p e m s := None)\<rparr>) amb (the (apiKey w))
       (cacheKey p e m s) p e m s True"
  by (simp add: callJinaReaderAPI_def Let_def)

lemma call_miss:
  "truthyStr (apiKey w) \<Longrightarrow> cache w (cacheKey p e m s) = None \<Longrightarrow>
   callJinaReaderAPI w amb p e m s True =
     callUpstream w amb (the (apiKey w)) (cacheKey p e m s) p e m s True"
  by (simp add: callJinaReaderAPI_def Let_def)

lemma call_no_key:
  "\<not> truthyStr (apiKey w) \<Longrightarrow>
   callJinaReaderAPI w amb p e m s u =
     (Inl (Error ''JINA_API_KEY not configured. Please set it in your .env file.''), w)"
  by (simp add: callJinaReaderAPI_def)

lemma fst_call_not_live:
  assumes "truthyStr (apiKey w)"
    and "\<not> (\<exists>entry. cache w (cacheKey p e m s) = Some entry
             \<and> nowAtLookup amb - timestamp entry < CACHE_TTL)"
  shows "fst (callJinaReaderAPI w amb p e m s True)
   = (case fetch amb (upstreamRequest (the (apiKey w)) p e m s) of
        Rejected msg \<Rightarrow> Inl (Error msg)
      | Responded response \<Rightarrow>
          if \<not> ok response
          then Inl (Error (''Jina API error: '' @ numStr (status response)))
          else (case json response of Inl msg \<Rightarrow> Inl (Error msg) | Inr b \<Rightarrow> Inr b))"
proof (cases "cache w (cacheKey p e m s)")
  case None
  with assms(1) show ?thesis
    by (simp add: call_miss fst_callUpstream)
next
  case (Some entry)
  with assms(2) have "CACHE_TTL \<le> nowAtLookup amb - timestamp entry" by simp
  with assms(1) Some show ?thesis
    by (simp add: call_expired fst_callUpstream)
qed

lemma cachedWorld_simps:
  "apiKey cachedWorld = Some ''secret''"
  "fetchCalls cachedWorld = []"
  "cache cachedWorld = [exampleKey \<mapsto> \<lparr>payload = Shaped \<lparr>data = None\<rparr>, timestamp = 1000\<rparr>]"
  by (simp_all add: cachedWorld_def)

lemma freshWorld_simps:
  "apiKey freshWorld = Some ''secret''"
  "fetchCalls freshWorld = []"
  "cache freshWorld = Map.empty"
  by (simp_all add: freshWorld_def)

lemma replying_simps:
  "nowAtLookup (replying t out) = t"
  "fetch (replying t out) = (\<lambda>request. out)"
  "nowAtStore (replying t out) = t + 1"
  by (simp_all add: replying_def)

lemma numStr_500: "numStr 500 = ''500''"
  by (simp add: numStr_def natStr.simps digitChar_def)

subsection \<open>C3: the time to live of a cache entry\<close>

text \<open>
  C3. Let a credential be configured and let the cache hold an entry under the key of
  the request. The time to live is three hours in milliseconds. A lookup made while
  \<open>now - timestamp < CACHE_TTL\<close> returns the stored payload and leaves the world as it
  is: the cache is unchanged and no call goes upstream. A lookup made when
  \<open>now - timestamp \<ge> CACHE_TTL\<close> gives the result of the same invocation started
  without the entry, issues exactly one upstream call, and leaves the cache without
  the expired entry: the key is unbound if the call fails and bound to the fresh reply
  if it succeeds.
\<close>

theorem cache_ttl:
  assumes "truthyStr (apiKey w)" and "cache w (cacheKey p e m s) = Some entry"
  shows "CACHE_TTL = 3 * 60 * 60 * 1000 \<and>
    (nowAtLookup amb - timestamp entry < CACHE_TTL \<longrightarrow>
       callJinaReaderAPI w amb p e m s True = (Inr (payload entry), w)) \<and>
    (CACHE_TTL \<le> nowAtLookup amb - timestamp entry \<longrightarrow>
       callJinaReaderAPI w amb p e m s True
         = callJinaReaderAPI (w\<lparr>cache := (cache w)(cacheKey p e m s := None)\<rparr>) amb p e m s True \<and>
       fetchCalls (snd (callJinaReaderAPI w amb p e m s True))
         = fetchCalls w @ [upstreamRequest (the (apiKey w)) p e m s] \<and>
       cache (snd (callJinaReaderAPI w amb p e m s True))
         = (case fst (callJinaReaderAPI w amb p e m s True) of
              Inl err \<Rightarrow> (cache w)(cacheKey p e m s := None)
            | Inr r \<Rightarrow> (cache w)(cacheKey p e m s \<mapsto>
                        \<lparr>payload = r, timestamp = nowAtStore amb\<rparr>)))"
proof (intro conjI impI)
  show "CACHE_TTL = 3 * 60 * 60 * 1000" by (simp add: CACHE_TTL_def)
next
  assume "nowAtLookup amb - timestamp entry < CACHE_TTL"
  with assms show "callJinaReaderAPI w amb p e m s True = (Inr (payload entry), w)"
    by (rule call_hit)
next
  assume old: "CACHE_TTL \<le> nowAtLookup amb - timestamp entry"
  let ?w = "w\<lparr>cache := (cache w)(cacheKey p e m s := None)\<rparr>"
  have run: "callJinaReaderAPI w amb p e m s True =
     callUpstream ?w amb (the (apiKey w)) (cacheKey p e m s) p e m s True"
    using assms old by (rule call_expired)
  have "callJinaReaderAPI ?w amb p e m s True =
     callUpstream ?w amb (the (apiKey ?w)) (cacheKey p e m s) p e m s True"
    using assms(1) by (intro call_miss) simp_all
  with run show "callJinaReaderAPI w amb p e m s True = callJinaReaderAPI ?w amb p e m s True"
    by simp
  show "fetchCalls (snd (callJinaReaderAPI w amb p e m s True))
         = fetchCalls w @ [upstreamRequest (the (apiKey w)) p e m s]"
    by (simp add: run callUpstream_fetchCalls)
  show "cache (snd (callJinaReaderAPI w amb p e m s True))
         = (case fst (callJinaReaderAPI w amb p e m s True) of
              Inl err \<Rightarrow> (cache w)(cacheKey p e m s := None)
            | Inr r \<Rightarrow> (cache w)(cacheKey p e m s \<mapsto>
                        \<lparr>payload = r, timestamp = nowAtStore amb\<rparr>))"
    by (simp add: run callUpstream_cache split: sum.split)
qed




theorem cache_ttl_witness:
  "callJinaReaderAPI cachedWorld (replying 10800999 (Rejected ''down''))
     (Url ''https://example.com'') none None None True
     = (Inr (Shaped \<lparr>data = None\<rparr>), cachedWorld) \<and>
   fetchCalls (snd (callJinaReaderAPI cachedWorld (replying 10801000 (Rejected ''down''))
     (Url ''https://example.com'') none None None True))
     = [upstreamRequest ''secret'' (Url ''https://example.com'') none None None] \<and>
   cache (snd (callJinaReaderAPI cachedWorld (replying 10801000 (Rejected ''down''))
     (Url ''https://example.com'') none None None True)) = Map.empty \<and>
   cache (snd (callJinaReaderAPI cachedWorld
     (replying 10801000 (okReply (Shaped \<lparr>data = Some emptyData\<rparr>)))
     (Url ''https://example.com'') none None None True))
     = [exampleKey \<mapsto> \<lparr>payload = Shaped \<lparr>data = Some emptyData\<rparr>, timestamp = 10801001\<rparr>]"
proof -
  let ?entry = "\<lparr>payload = Shaped \<lparr>data = None\<rparr>, timestamp = 1000\<rparr>"
  let ?p = "Url ''https://example.com''"
  let ?gone = "cachedWorld\<lparr>cache := (cache cachedWorld)(cacheKey ?p none None None := None)\<rparr>"
  let ?early = "replying 10800999 (Rejected ''down'')"
  let ?down = "replying 10801000 (Rejected ''down'')"
  let ?up = "replying 10801000 (okReply (Shaped \<lparr>data = Some emptyData\<rparr>))"
  have k: "truthyStr (apiKey cachedWorld)"
    by (simp add: cachedWorld_simps)
  have c: "cache cachedWorld (cacheKey ?p none None None) = Some ?entry"
    by (simp add: cachedWorld_simps exampleKey_def)
  have young: "nowAtLookup ?early - timestamp ?entry < CACHE_TTL"
    by (simp add: replying_simps CACHE_TTL_def)
  have old: "CACHE_TTL \<le> nowAtLookup ?down - timestamp ?entry"
    "CACHE_TTL \<le> nowAtLookup ?up - timestamp ?entry"
    by (simp_all add: replying_simps CACHE_TTL_def)
  have gone: "truthyStr (apiKey ?gone)" "cache ?gone (cacheKey ?p none None None) = None"
    by (simp_all add: cachedWorld_simps)
  have down: "fst (callJinaReaderAPI ?gone ?down ?p none None None True) = Inl (Error ''down'')"
    by (simp add: call_miss [OF gone] callUpstream_def replying_simps Let_def)
  have up: "fst (callJinaReaderAPI ?gone ?up ?p none None None True)
      = Inr (Shaped \<lparr>data = Some emptyData\<rparr>)"
    by (simp add: call_miss [OF gone] callUpstream_def replying_simps okReply_def Let_def)
  note hit = cache_ttl [OF k c, THEN conjunct2, THEN conjunct1, rule_format]
  note expired = cache_ttl [OF k c, THEN conjunct2, THEN conjunct2, rule_format]
  have "callJinaReaderAPI cachedWorld ?early ?p none None None True
      = (Inr (payload ?entry), cachedWorld)"
    using young by (rule hit)
  then have 1: "callJinaReaderAPI cachedWorld ?early ?p none None None True
      = (Inr (Shaped \<lparr>data = None\<rparr>), cachedWorld)"
    by simp
  have same: "callJinaReaderAPI cachedWorld ?down ?p none None None True
      = callJinaReaderAPI ?gone ?down ?p none None None True"
    using expired [OF old(1)] by (rule conjunct1)
  have "fetchCalls (snd (callJinaReaderAPI cachedWorld ?down ?p none None None True))
      = fetchCalls cachedWorld @ [upstreamRequest (the (apiKey cachedWorld)) ?p none None None]"
    using expired [OF old(1)] by (rule conjunct2 [THEN conjunct1])
  then have 2: "fetchCalls (snd (callJinaReaderAPI cachedWorld ?down ?p none None None True))
      = [upstreamRequest ''secret'' ?p none None None]"
    by (simp add: cachedWorld_simps)
  have "cache (snd (callJinaReaderAPI cachedWorld ?down ?p none None None True))
      = (case fst (callJinaReaderAPI cachedWorld ?down ?p none None None True) of
           Inl err \<Rightarrow> (cache cachedWorld)(cacheKey ?p none None None := None)
         | Inr r \<Rightarrow> (cache cachedWorld)(cacheKey ?p none None None \<mapsto>
                        \<lparr>payload = r, timestamp = nowAtStore ?down\<rparr>))"
    using expired [OF old(1)] by (rule conjunct2 [THEN conjunct2])
  moreover have "fst (callJinaReaderAPI cachedWorld ?down ?p none None None True)
      = Inl (Error ''down'')"
    by (simp only: same down)
  ultimately have "cache (snd (callJinaReaderAPI cachedWorld ?down ?p none None None True))
      = (cache cachedWorld)(cacheKey ?p none None None := None)"
    by (simp only: sum.case)
  then have 3: "cache (snd (callJinaReaderAPI cachedWorld ?down ?p none None None True)) = Map.empty"
    by (simp add: cachedWorld_simps exampleKey_def)
  have same': "callJinaReaderAPI cachedWorld ?up ?p none None None True
      = callJinaReaderAPI ?gone ?up ?p none None None True"
    using expired [OF old(2)] by (rule conjunct1)
  have "cache (snd (callJinaReaderAPI cachedWorld ?up ?p none None None True))
      = (case fst (callJinaReaderAPI cachedWorld ?up ?p none None None True) of
           Inl err \<Rightarrow> (cache cachedWorld)(cacheKey ?p none None None := None)
         | Inr r \<Rightarrow> (cache cachedWorld)(cacheKey ?p none None None \<mapsto>
                        \<lparr>payload = r, timestamp = nowAtStore ?up\<rparr>))"
    using expired [OF old(2)] by (rule conjunct2 [THEN conjunct2])
  moreover have "fst (callJinaReaderAPI cachedWorld ?up ?p none None None True)
      = Inr (Shaped \<lparr>data = Some emptyData\<rparr>)"
    by (simp only: same' up)
  ultimately have "cache (snd (callJinaReaderAPI cachedWorld ?up ?p none None None True))
      = (cache cachedWorld)(cacheKey ?p none None None \<mapsto>
           \<lparr>payload = Shaped \<lparr>data = Some emptyData\<rparr>, timestamp = nowAtStore ?up\<rparr>)"
    by (simp only: sum.case)
  then have 4: "cache (snd (callJinaReaderAPI cachedWorld ?up ?p none None None True))
      = [exampleKey \<mapsto> \<lparr>payload = Shaped \<lparr>data = Some emptyData\<rparr>, timestamp = 10801001\<rparr>]"
    by (simp add: cachedWorld_simps exampleKey_def replying_simps)
  from 1 2 3 4 show ?thesis by blast
qed


subsection \<open>C6: no credential\<close>

text \<open>
  C6. When \<^verbatim>\<open>JINA_API_KEY\<close> is unset or empty, each of the three handlers returns
  the envelope whose one content item is of type text and says that the credential is
  not configured, behind the prefix \<^verbatim>\<open>Error: \<close>, and hands the world back unchanged:
  the list of upstream calls has not grown, so no network call was attempted.
\<close>

theorem missing_credential:
  assumes "apiKey w = None \<or> apiKey w = Some []"
  shows "jina_read_url w amb x e m s = (Inr 
      \<lparr>Envelope.content = [\<lparr>type = ''text'', text = ''Error: JINA_API_KEY not configured. Please set it in your .env file.''\<rparr>]\<rparr>, w) \<and>
    jina_read_html w amb x e m s = (Inr 
      \<lparr>Envelope.content = [\<lparr>type = ''text'', text = ''Error: JINA_API_KEY not configured. Please set it in your .env file.''\<rparr>]\<rparr>, w) \<and>
    jina_read_pdf w amb x e m s = (Inr 
      \<lparr>Envelope.content = [\<lparr>type = ''text'', text = ''Error: JINA_API_KEY not configured. Please set it in your .env file.''\<rparr>]\<rparr>, w) \<and>
    fetchCalls (snd (jina_read_url w amb x e m s)) = fetchCalls w \<and>
    fetchCalls (snd (jina_read_html w amb x e m s)) = fetchCalls w \<and>
    fetchCalls (snd (jina_read_pdf w amb x e m s)) = fetchCalls w"
proof -
  from assms have "\<not> truthyStr (apiKey w)" by auto
  then show ?thesis
    by (simp add: jina_read_url_def jina_read_html_def jina_read_pdf_def call_no_key
        textEnvelope_def)
qed

theorem missing_credential_witness:
  "jina_read_url keylessWorld (replying 0 (okReply (Shaped \<lparr>data = None\<rparr>)))
     ''https://example.com'' None None None = (Inr 
      \<lparr>Envelope.content = [\<lparr>type = ''text'', text = ''Error: JINA_API_KEY not configured. Please set it in your .env file.''\<rparr>]\<rparr>, keylessWorld) \<and>
   jina_read_pdf (keylessWorld\<lparr>apiKey := Some []\<rparr>)
     (replying 0 (okReply (Shaped \<lparr>data = None\<rparr>))) ''JVBERi0='' (Some browser) (Some 5) (Some 0)
     = (Inr 
      \<lparr>Envelope.content = [\<lparr>type = ''text'', text = ''Error: JINA_API_KEY not configured. Please set it in your .env file.''\<rparr>]\<rparr>, keylessWorld\<lparr>apiKey := Some []\<rparr>) \<and>
   fetchCalls (snd (jina_read_pdf (keylessWorld\<lparr>apiKey := Some []\<rparr>)
     (replying 0 (okReply (Shaped \<lparr>data = None\<rparr>))) ''JVBERi0='' (Some browser) (Some 5) (Some 0)))
     = []"
  using missing_credential [of keylessWorld "replying 0 (okReply (Shaped \<lparr>data = None\<rparr>))"
      "''https://example.com''" None None None]
    missing_credential [of "keylessWorld\<lparr>apiKey := Some []\<rparr>"
      "replying 0 (okReply (Shaped \<lparr>data = None\<rparr>))" "''JVBERi0=''" "Some browser" "Some 5" "Some 0"]
  by (simp add: keylessWorld_def)

subsection \<open>C7: failures become error texts\<close>

lemma handlers_share_body: "(h, P) \<in> set toolHandlers \<Longrightarrow> h = handlerBody P"
  by (auto simp add: toolHandlers_def handlerBody_def jina_read_url_def jina_read_html_def
      jina_read_pdf_def fun_eq_iff)

lemma handlerBody_caught:
  "callJinaReaderAPI w amb (P x) (engineOrDefault e) m s True = (Inl err, w') \<Longrightarrow>
   handlerBody P w amb x e m s = (Inr \<lparr>Envelope.content = [\<lparr>type = ''text'', text = ''Error: '' @ message err\<rparr>]\<rparr>, w')"
  by (simp add: handlerBody_def textEnvelope_def)

lemma handlerBody_unformattable:
  "fst (callJinaReaderAPI w amb (P x) (engineOrDefault e) m s True) = Inr (Unformattable msg) \<Longrightarrow>
   fst (handlerBody P w amb x e m s) = Inr \<lparr>Envelope.content = [\<lparr>type = ''text'', text = ''Error: '' @ msg\<rparr>]\<rparr>"
  by (cases "callJinaReaderAPI w amb (P x) (engineOrDefault e) m s True")
    (simp add: handlerBody_def textEnvelope_def)

lemma handlerBody_failed:
  "fst (callJinaReaderAPI w amb (P x) (engineOrDefault e) m s True) = Inl err \<Longrightarrow>
   fst (handlerBody P w amb x e m s) = Inr \<lparr>Envelope.content = [\<lparr>type = ''text'', text = ''Error: '' @ message err\<rparr>]\<rparr>"
  by (cases "callJinaReaderAPI w amb (P x) (engineOrDefault e) m s True")
    (simp add: handlerBody_def textEnvelope_def)

lemma handlerBody_returns:
  "\<exists>t. fst (handlerBody P w amb x e m s) = Inr \<lparr>Envelope.content = [\<lparr>type = ''text'', text = t\<rparr>]\<rparr>"
  by (simp add: handlerBody_def textEnvelope_def split: prod.split sum.split)

text \<open>
  C7. Each of the three handlers always returns an envelope with one content item of
  type text and never ends in a thrown error. Whenever the upstream client fails, with
  whatever error, the text is the error's message behind the prefix \<^verbatim>\<open>Error: \<close>. In
  particular: without a credential the text names the missing credential; and with a
  credential and no live cache entry for the request, a rejected \<^verbatim>\<open>fetch\<close> gives the
  message of the rejection, a reply that is not ok gives \<^verbatim>\<open>Jina API error: \<close> and the
  status, a body that does not parse gives the message of the parse error, and a body
  on which the formatter throws gives the message of that error.
\<close>

theorem handlers_catch:
  assumes "(h, P) \<in> set toolHandlers"
    and "request = upstreamRequest (the (apiKey w)) (P x) (engineOrDefault e) m s"
    and "live \<longleftrightarrow> (\<exists>entry. cache w (cacheKey (P x) (engineOrDefault e) m s) = Some entry
                   \<and> nowAtLookup amb - timestamp entry < CACHE_TTL)"
  shows "(\<exists>t. fst (h w amb x e m s) = Inr \<lparr>Envelope.content = [\<lparr>type = ''text'', text = t\<rparr>]\<rparr>) \<and>
    (\<forall>err w'. callJinaReaderAPI w amb (P x) (engineOrDefault e) m s True = (Inl err, w') \<longrightarrow>
       h w amb x e m s = (Inr \<lparr>Envelope.content = [\<lparr>type = ''text'', text = ''Error: '' @ message err\<rparr>]\<rparr>, w')) \<and>
    (\<not> truthyStr (apiKey w) \<longrightarrow>
       fst (h w amb x e m s) = Inr \<lparr>Envelope.content = [\<lparr>type = ''text'', text = ''Error: JINA_API_KEY not configured. Please set it in your .env file.''\<rparr>]\<rparr>) \<and>
    (truthyStr (apiKey w) \<and> \<not> live \<longrightarrow>
       (\<forall>msg. fetch amb request = Rejected msg \<longrightarrow>
          fst (h w amb x e m s) = Inr \<lparr>Envelope.content = [\<lparr>type = ''text'', text = ''Error: '' @ msg\<rparr>]\<rparr>) \<and>
       (\<forall>response. fetch amb request = Responded response \<and> \<not> ok response
            \<and> isSafeInteger (status response) \<longrightarrow>
          fst (h w amb x e m s) = Inr \<lparr>Envelope.content = [\<lparr>type = ''text'', text = ''Error: Jina API error: '' @ numStr (status response)\<rparr>]\<rparr>) \<and>
       (\<forall>response msg. fetch amb request = Responded response \<and> ok response
            \<and> json response = Inl msg \<longrightarrow>
          fst (h w amb x e m s) = Inr \<lparr>Envelope.content = [\<lparr>type = ''text'', text = ''Error: '' @ msg\<rparr>]\<rparr>) \<and>
       (\<forall>response msg. fetch amb request = Responded response \<and> ok response
            \<and> json response = Inr (Unformattable msg) \<longrightarrow>
          fst (h w amb x e m s) = Inr \<lparr>Envelope.content = [\<lparr>type = ''text'', text = ''Error: '' @ msg\<rparr>]\<rparr>))"
proof -
  let ?call = "callJinaReaderAPI w amb (P x) (engineOrDefault e) m s True"
  have h: "h = handlerBody P"
    using assms(1) by (rule handlers_share_body)
  have returns: "\<exists>t. fst (h w amb x e m s) = Inr \<lparr>Envelope.content = [\<lparr>type = ''text'', text = t\<rparr>]\<rparr>"
    unfolding h by (rule handlerBody_returns)
  have caught: "\<forall>err w'. ?call = (Inl err, w') \<longrightarrow>
       h w amb x e m s = (Inr \<lparr>Envelope.content = [\<lparr>type = ''text'', text = ''Error: '' @ message err\<rparr>]\<rparr>, w')"
    unfolding h by (simp add: handlerBody_caught)
  have no_key: "fst (h w amb x e m s)
      = Inr \<lparr>Envelope.content = [\<lparr>type = ''text'', text = ''Error: JINA_API_KEY not configured. Please set it in your .env file.''\<rparr>]\<rparr>"
    if "\<not> truthyStr (apiKey w)"
  proof -
    from that have "fst ?call
        = Inl (Error ''JINA_API_KEY not configured. Please set it in your .env file.'')"
      by (simp add: call_no_key)
    then show ?thesis
      unfolding h by (simp add: handlerBody_failed)
  qed
  have upstream: "fst ?call
      = (case fetch amb request of
           Rejected msg \<Rightarrow> Inl (Error msg)
         | Responded response \<Rightarrow>
             if \<not> ok response
             then Inl (Error (''Jina API error: '' @ numStr (status response)))
             else (case json response of Inl msg \<Rightarrow> Inl (Error msg) | Inr b \<Rightarrow> Inr b))"
    if "truthyStr (apiKey w)" and "\<not> live"
    using that assms(3) unfolding assms(2) by (intro fst_call_not_live) simp_all
  have rejected: "fst (h w amb x e m s) = Inr \<lparr>Envelope.content = [\<lparr>type = ''text'', text = ''Error: '' @ msg\<rparr>]\<rparr>"
    if "truthyStr (apiKey w)" and "\<not> live" and "fetch amb request = Rejected msg" for msg
  proof -
    from that have "fst ?call = Inl (Error msg)" by (simp add: upstream)
    then show ?thesis unfolding h by (simp add: handlerBody_failed)
  qed
  have not_ok: "fst (h w amb x e m s)
      = Inr \<lparr>Envelope.content = [\<lparr>type = ''text'', text = ''Error: Jina API error: '' @ numStr (status response)\<rparr>]\<rparr>"
    if "truthyStr (apiKey w)" and "\<not> live" and "fetch amb request = Responded response"
      and "\<not> ok response" for response
  proof -
    from that have "fst ?call = Inl (Error (''Jina API error: '' @ numStr (status response)))"
      by (simp add: upstream)
    then show ?thesis unfolding h by (simp add: handlerBody_failed)
  qed
  have unparsed: "fst (h w amb x e m s) = Inr \<lparr>Envelope.content = [\<lparr>type = ''text'', text = ''Error: '' @ msg\<rparr>]\<rparr>"
    if "truthyStr (apiKey w)" and "\<not> live" and "fetch amb request = Responded response"
      and "ok response" and "json response = Inl msg" for response msg
  proof -
    from that have "fst ?call = Inl (Error msg)" by (simp add: upstream)
    then show ?thesis unfolding h by (simp add: handlerBody_failed)
  qed
  have unformatted: "fst (h w amb x e m s) = Inr \<lparr>Envelope.content = [\<lparr>type = ''text'', text = ''Error: '' @ msg\<rparr>]\<rparr>"
    if "truthyStr (apiKey w)" and "\<not> live" and "fetch amb request = Responded response"
      and "ok response" and "json response = Inr (Unformattable msg)" for response msg
  proof -
    from that have "fst ?call = Inr (Unformattable msg)" by (simp add: upstream)
    then show ?thesis unfolding h by (rule handlerBody_unformattable)
  qed
  from returns caught no_key rejected not_ok unparsed unformatted show ?thesis
    by blast
qed

lemma toolHandlers_mem:
  "(jina_read_url, Url) \<in> set toolHandlers"
  "(jina_read_html, Html) \<in> set toolHandlers"
  "(jina_read_pdf, Pdf) \<in> set toolHandlers"
  by (simp_all add: toolHandlers_def)

theorem handlers_catch_witness:
  "fst (jina_read_url freshWorld (replying 0 (failing 500))
      ''https://example.com'' None None None)
     = Inr \<lparr>Envelope.content = [\<lparr>type = ''text'', text = ''Error: Jina API error: 500''\<rparr>]\<rparr> \<and>
   fst (jina_read_html freshWorld (replying 0 (Rejected ''getaddrinfo ENOTFOUND r.jina.ai''))
      ''<p>hi</p>'' None None None)
     = Inr \<lparr>Envelope.content = [\<lparr>type = ''text'', text = ''Error: getaddrinfo ENOTFOUND r.jina.ai''\<rparr>]\<rparr> \<and>
   fst (jina_read_pdf freshWorld (replying 0 unparsable) ''JVBERi0='' None None None)
     = Inr \<lparr>Envelope.content = [\<lparr>type = ''text'', text = ''Error: Unexpected token < in JSON''\<rparr>]\<rparr> \<and>
   fst (jina_read_url freshWorld (replying 0 (okReply (Unformattable ''Cannot read properties of null'')))
      ''https://example.com'' None None None)
     = Inr \<lparr>Envelope.content = [\<lparr>type = ''text'', text = ''Error: Cannot read properties of null''\<rparr>]\<rparr> \<and>
   fst (jina_read_url keylessWorld (replying 0 (failing 500))
      ''https://example.com'' None None None)
     = Inr \<lparr>Envelope.content = [\<lparr>type = ''text'', text = ''Error: JINA_API_KEY not configured. Please set it in your .env file.''\<rparr>]\<rparr>"
proof -
  have key: "truthyStr (apiKey freshWorld)"
    by (simp add: freshWorld_simps)
  have 1: "fst (jina_read_url freshWorld (replying 0 (failing 500))
      ''https://example.com'' None None None)
     = Inr \<lparr>Envelope.content = [\<lparr>type = ''text'', text = ''Error: Jina API error: 500''\<rparr>]\<rparr>"
    using handlers_catch [where h = jina_read_url and P = Url and w = freshWorld and x = "''https://example.com''"
        and e = None and m = None and s = None and amb = "replying 0 (failing 500)"
        and live = False, OF _ refl]
      toolHandlers_mem(1)
      key
    by (simp add: replying_simps failing_def isSafeInteger_def MAX_SAFE_INTEGER_def numStr_500
        freshWorld_simps)
  have 2: "fst (jina_read_html freshWorld (replying 0 (Rejected ''getaddrinfo ENOTFOUND r.jina.ai''))
      ''<p>hi</p>'' None None None)
     = Inr \<lparr>Envelope.content = [\<lparr>type = ''text'', text = ''Error: getaddrinfo ENOTFOUND r.jina.ai''\<rparr>]\<rparr>"
    using handlers_catch [where h = jina_read_html and P = Html and w = freshWorld and x = "''<p>hi</p>''"
        and e = None and m = None and s = None and amb = "replying 0 (Rejected ''getaddrinfo ENOTFOUND r.jina.ai'')"
        and live = False, OF _ refl]
      toolHandlers_mem(2)
      key
    by (simp add: replying_simps freshWorld_simps)
  have 3: "fst (jina_read_pdf freshWorld (replying 0 unparsable) ''JVBERi0='' None None None)
     = Inr \<lparr>Envelope.content = [\<lparr>type = ''text'', text = ''Error: Unexpected token < in JSON''\<rparr>]\<rparr>"
    using handlers_catch [where h = jina_read_pdf and P = Pdf and w = freshWorld and x = "''JVBERi0=''"
        and e = None and m = None and s = None and amb = "replying 0 unparsable"
        and live = False, OF _ refl]
      toolHandlers_mem(3)
      key
    by (simp add: replying_simps unparsable_def freshWorld_simps)
  have 4: "fst (jina_read_url freshWorld
      (replying 0 (okReply (Unformattable ''Cannot read properties of null'')))
      ''https://example.com'' None None None)
     = Inr \<lparr>Envelope.content = [\<lparr>type = ''text'', text = ''Error: Cannot read properties of null''\<rparr>]\<rparr>"
    using handlers_catch [where h = jina_read_url and P = Url and w = freshWorld and x = "''https://example.com''"
        and e = None and m = None and s = None and amb = "replying 0 (okReply (Unformattable ''Cannot read properties of null''))"
        and live = False, OF _ refl]
      toolHandlers_mem(1)
      key
    by (simp add: replying_simps okReply_def freshWorld_simps)
  have 5: "fst (jina_read_url keylessWorld (replying 0 (failing 500))
      ''https://example.com'' None None None)
     = Inr \<lparr>Envelope.content = [\<lparr>type = ''text'', text = ''Error: JINA_API_KEY not configured. Please set it in your .env file.''\<rparr>]\<rparr>"
    using handlers_catch [where h = jina_read_url and P = Url and w = keylessWorld and x = "''https://example.com''"
        and e = None and m = None and s = None and amb = "replying 0 (failing 500)"
        and live = False, OF _ refl]
      toolHandlers_mem(1)
    by (simp add: keylessWorld_def)
  from 1 2 3 4 5 show ?thesis by blast
qed

subsection \<open>C9: an omitted parameter and its default are separate cache entries\<close>

lemma two_requests_two_entries:
  assumes key: "truthyStr (apiKey w)"
    and differ: "cacheKey p e m s \<noteq> cacheKey p e m' s'"
    and empty: "cache w (cacheKey p e m s) = None" "cache w (cacheKey p e m' s') = None"
    and reply: "fetch amb (upstreamRequest (the (apiKey w)) p e m s) = Responded response"
      "ok response" "json response = Inr b"
    and reply': "fetch amb' (upstreamRequest (the (apiKey w)) p e m' s') = Responded response'"
      "ok response'" "json response' = Inr b'"
    and young: "nowAtLookup amb'' - nowAtStore amb < CACHE_TTL"
    and w\<^sub>1_def: "w\<^sub>1 = w\<lparr>fetchCalls := fetchCalls w @ [upstreamRequest (the (apiKey w)) p e m s],
      cache := (cache w)(cacheKey p e m s \<mapsto> \<lparr>payload = b, timestamp = nowAtStore amb\<rparr>)\<rparr>"
  shows "callJinaReaderAPI w amb p e m s True = (Inr b, w\<^sub>1)"
    and "callJinaReaderAPI w\<^sub>1 amb'' p e m s True = (Inr b, w\<^sub>1)"
    and "callJinaReaderAPI w\<^sub>1 amb' p e m' s' True =
      (Inr b', w\<lparr>fetchCalls := fetchCalls w @ [upstreamRequest (the (apiKey w)) p e m s,
                                                 upstreamRequest (the (apiKey w)) p e m' s'],
                  cache := (cache w)
                    (cacheKey p e m s \<mapsto> \<lparr>payload = b, timestamp = nowAtStore amb\<rparr>,
                     cacheKey p e m' s' \<mapsto> \<lparr>payload = b', timestamp = nowAtStore amb'\<rparr>)\<rparr>)"
proof -
  show "callJinaReaderAPI w amb p e m s True = (Inr b, w\<^sub>1)"
    using key empty(1) reply by (simp add: call_miss callUpstream_ok w\<^sub>1_def)
  have key1: "truthyStr (apiKey w\<^sub>1)"
    using key by (simp add: w\<^sub>1_def)
  have "cache w\<^sub>1 (cacheKey p e m s) = Some \<lparr>payload = b, timestamp = nowAtStore amb\<rparr>"
    by (simp add: w\<^sub>1_def)
  with key1 have "callJinaReaderAPI w\<^sub>1 amb'' p e m s True
      = (Inr (payload \<lparr>payload = b, timestamp = nowAtStore amb\<rparr>), w\<^sub>1)"
    by (rule call_hit) (simp add: young)
  then show "callJinaReaderAPI w\<^sub>1 amb'' p e m s True = (Inr b, w\<^sub>1)"
    by simp
  have miss: "cache w\<^sub>1 (cacheKey p e m' s') = None"
    using differ empty(2) by (simp add: w\<^sub>1_def)
  have "callJinaReaderAPI w\<^sub>1 amb' p e m' s' True =
      callUpstream w\<^sub>1 amb' (the (apiKey w\<^sub>1)) (cacheKey p e m' s') p e m' s' True"
    using key1 miss by (rule call_miss)
  also have "\<dots> = (Inr b', w\<^sub>1\<lparr>fetchCalls := fetchCalls w\<^sub>1 @ [upstreamRequest (the (apiKey w\<^sub>1)) p e m' s'],
      cache := (cache w\<^sub>1)(cacheKey p e m' s' \<mapsto> \<lparr>payload = b', timestamp = nowAtStore amb'\<rparr>)\<rparr>)"
    using reply' by (intro callUpstream_ok) (simp_all add: w\<^sub>1_def)
  finally show "callJinaReaderAPI w\<^sub>1 amb' p e m' s' True =
      (Inr b', w\<lparr>fetchCalls := fetchCalls w @ [upstreamRequest (the (apiKey w)) p e m s,
                                                 upstreamRequest (the (apiKey w)) p e m' s'],
                  cache := (cache w)
                    (cacheKey p e m s \<mapsto> \<lparr>payload = b, timestamp = nowAtStore amb\<rparr>,
                     cacheKey p e m' s' \<mapsto> \<lparr>payload = b', timestamp = nowAtStore amb'\<rparr>)\<rparr>)"
    by (simp add: w\<^sub>1_def)
qed

text \<open>
  C9. Take a request that omits \<^verbatim>\<open>start_index\<close> and the same request with
  \<^verbatim>\<open>start_index = 0\<close>, or a request that omits \<^verbatim>\<open>max_length\<close> and the same request
  with some \<^verbatim>\<open>max_length\<close>. Their cache keys differ, and in the first case both are
  formatted from start 0. Starting with a credential and with neither key in the
  cache, let the first request be made and answered by the upstream, then the second.
  The first call stores its reply under its key, and a repetition of the first
  request within the time to live is served from that entry without a call. The
  second request is not: it goes upstream as well, so that two calls have been made
  and the cache ends with two entries, one under each key.
\<close>

theorem omitted_parameter_is_another_entry:
  assumes "truthyStr (apiKey w)"
    and "(m' = m \<and> s = None \<and> s' = Some 0) \<or> (s' = s \<and> m = None \<and> m' = Some n)"
    and "k = cacheKey p e m s" and "k' = cacheKey p e m' s'"
    and "cache w k = None" and "cache w k' = None"
    and "request = upstreamRequest (the (apiKey w)) p e m s"
    and "request' = upstreamRequest (the (apiKey w)) p e m' s'"
    and "fetch amb request = Responded response" and "ok response" and "json response = Inr b"
    and "fetch amb' request' = Responded response'" and "ok response'"
    and "json response' = Inr b'"
    and "nowAtLookup amb'' - nowAtStore amb < CACHE_TTL"
    and "first = callJinaReaderAPI w amb p e m s True"
    and "again = callJinaReaderAPI (snd first) amb'' p e m s True"
    and "second = callJinaReaderAPI (snd first) amb' p e m' s' True"
  shows "k \<noteq> k' \<and>
    (s = None \<and> s' = Some 0 \<longrightarrow> startOrZero s = startOrZero s') \<and>
    fst first = Inr b \<and>
    fetchCalls (snd first) = fetchCalls w @ [request] \<and>
    cache (snd first) = (cache w)(k \<mapsto> \<lparr>payload = b, timestamp = nowAtStore amb\<rparr>) \<and>
    again = (Inr b, snd first) \<and>
    fst second = Inr b' \<and>
    fetchCalls (snd second) = fetchCalls w @ [request, request'] \<and>
    cache (snd second) = (cache w)(k \<mapsto> \<lparr>payload = b, timestamp = nowAtStore amb\<rparr>,
                                   k' \<mapsto> \<lparr>payload = b', timestamp = nowAtStore amb'\<rparr>)"
proof -
  have differ: "cacheKey p e m s \<noteq> cacheKey p e m' s'"
    using assms(2) cacheKey_inj [of p e m s p e m' s'] by auto
  note run = two_requests_two_entries [OF assms(1) differ
      assms(5) [unfolded assms(3)] assms(6) [unfolded assms(4)]
      assms(9) [unfolded assms(7)] assms(10) assms(11)
      assms(12) [unfolded assms(8)] assms(13) assms(14) assms(15) refl]
  have 1: "first = (Inr b, w\<lparr>fetchCalls := fetchCalls w @ [request],
      cache := (cache w)(k \<mapsto> \<lparr>payload = b, timestamp = nowAtStore amb\<rparr>)\<rparr>)"
    unfolding assms(16) assms(3) assms(7) by (rule run(1))
  have 2: "again = (Inr b, snd first)"
    unfolding assms(17) 1 using run(2) by (simp add: assms(3) assms(7))
  have 3: "second = (Inr b', w\<lparr>fetchCalls := fetchCalls w @ [request, request'],
      cache := (cache w)(k \<mapsto> \<lparr>payload = b, timestamp = nowAtStore amb\<rparr>,
                         k' \<mapsto> \<lparr>payload = b', timestamp = nowAtStore amb'\<rparr>)\<rparr>)"
    unfolding assms(18) 1 using run(3) by (simp add: assms(3) assms(4) assms(7) assms(8))
  have "s = None \<and> s' = Some 0 \<longrightarrow> startOrZero s = startOrZero s'"
    by (simp add: startOrZero_def)
  with differ 1 2 3 show ?thesis
    by (simp add: assms(3) assms(4))
qed

theorem omitted_parameter_is_another_entry_witness:
  "cacheKey (Url ''https://example.com'') none None None
     \<noteq> cacheKey (Url ''https://example.com'') none None (Some 0) \<and>
   fetchCalls (snd (callJinaReaderAPI
       (snd (callJinaReaderAPI freshWorld (replying 0 (okReply (Shaped \<lparr>data = None\<rparr>)))
               (Url ''https://example.com'') none None None True))
       (replying 5 (okReply (Shaped \<lparr>data = Some emptyData\<rparr>)))
       (Url ''https://example.com'') none None (Some 0) True))
     = [upstreamRequest ''secret'' (Url ''https://example.com'') none None None,
        upstreamRequest ''secret'' (Url ''https://example.com'') none None (Some 0)] \<and>
   fetchCalls (snd (callJinaReaderAPI
       (snd (callJinaReaderAPI freshWorld (replying 0 (okReply (Shaped \<lparr>data = None\<rparr>)))
               (Url ''https://example.com'') none None None True))
       (replying 7 (Rejected ''down''))
       (Url ''https://example.com'') none None None True))
     = [upstreamRequest ''secret'' (Url ''https://example.com'') none None None]"
proof -
  let ?p = "Url ''https://example.com''"
  let ?A = "replying 0 (okReply (Shaped \<lparr>data = None\<rparr>))"
  let ?A' = "replying 5 (okReply (Shaped \<lparr>data = Some emptyData\<rparr>))"
  let ?A'' = "replying 7 (Rejected ''down'')"
  let ?R = "\<lparr>ok = True, status = 200, json = Inr (Shaped \<lparr>data = None\<rparr>)\<rparr>"
  let ?R' = "\<lparr>ok = True, status = 200, json = Inr (Shaped \<lparr>data = Some emptyData\<rparr>)\<rparr>"
  have a1: "truthyStr (apiKey freshWorld)"
    by (simp add: freshWorld_simps)
  have a2: "(None = (None :: int option) \<and> None = (None :: int option) \<and> Some (0 :: int) = Some 0)
      \<or> (Some 0 = None \<and> None = (None :: int option) \<and> None = Some (0 :: int))"
    by simp
  have a5: "cache freshWorld k = None" for k
    by (simp add: freshWorld_simps)
  have a9: "fetch ?A r = Responded ?R" and a12: "fetch ?A' r = Responded ?R'" for r
    by (simp_all add: replying_simps okReply_def)
  have a15: "nowAtLookup ?A'' - nowAtStore ?A < CACHE_TTL"
    by (simp add: replying_simps CACHE_TTL_def)
  note T = omitted_parameter_is_another_entry [where w = freshWorld and p = ?p and e = none
      and m = None and m' = None and s = None and s' = "Some 0" and n = 0
      and amb = ?A and amb' = ?A' and amb'' = ?A'' and response = ?R and response' = ?R'
      and b = "Shaped \<lparr>data = None\<rparr>" and b' = "Shaped \<lparr>data = Some emptyData\<rparr>",
      OF a1 a2 refl refl a5 a5 refl refl a9 _ _ a12 _ _ a15 refl refl refl]
  have T': "cacheKey ?p none None None \<noteq> cacheKey ?p none None (Some 0) \<and>
    callJinaReaderAPI (snd (callJinaReaderAPI freshWorld ?A ?p none None None True)) ?A''
        ?p none None None True
      = (Inr (Shaped \<lparr>data = None\<rparr>), snd (callJinaReaderAPI freshWorld ?A ?p none None None True)) \<and>
    fetchCalls (snd (callJinaReaderAPI freshWorld ?A ?p none None None True))
      = fetchCalls freshWorld @ [upstreamRequest (the (apiKey freshWorld)) ?p none None None] \<and>
    fetchCalls (snd (callJinaReaderAPI
        (snd (callJinaReaderAPI freshWorld ?A ?p none None None True)) ?A' ?p none None (Some 0) True))
      = fetchCalls freshWorld @ [upstreamRequest (the (apiKey freshWorld)) ?p none None None,
          upstreamRequest (the (apiKey freshWorld)) ?p none None (Some 0)]"
    using T by simp
  then show ?thesis
    by (simp add: freshWorld_simps)
qed

end
